theory Spec2Isabelle
  imports Complex_Main
begin

section \<open>Lost and Found AI Similarity Matcher (AI_SIMILARITY/app.py)\<close>

text \<open>
  A shallow embedding of \<^verbatim>\<open>app.py\<close>. Conventions of the model:
  \<^item> numbers (NumPy and Python floats) are idealised as \<open>real\<close>: no rounding error,
    no overflow, no NaN;
  \<^item> an embedding is a \<open>real list\<close>; \<^verbatim>\<open>np.dot\<close> raises \<^verbatim>\<open>ValueError\<close> on vectors of
    different length, which is a branch of the model;
  \<^item> strings are \<open>string\<close>, a \<open>char\<close> being a code point below 256; on these
    \<^verbatim>\<open>str.lower\<close> and \<^verbatim>\<open>str.strip\<close> are modelled as Python has them. Text with a code
    point from 256 on is outside the string type of the model (no such character
    becomes a letter of \<^verbatim>\<open>lost\<close> or \<^verbatim>\<open>found\<close> in lower case);
  \<^item> the external collaborators (Firestore, the two SentenceTransformer models, the
    HTTP fetch of an image) are the fields of an environment record; the text model
    returns a vector for every string, the image model and the fetch may fail;
  \<^item> a request is taken as Flask has parsed it;
  \<^item> Python's \<^verbatim>\<open>None\<close> is \<open>None\<close>, an exception is \<open>Inl\<close> of a sum.
\<close>

subsection \<open>Exceptions\<close>

datatype error =
    ValueError          \<comment> \<open>\<^verbatim>\<open>np.dot\<close> on vectors whose shapes are not aligned\<close>
  | DivideByZero        \<comment> \<open>a division whose divisor is zero (NumPy: a warning, and inf or nan)\<close>
  | AttributeError      \<comment> \<open>\<^verbatim>\<open>.get\<close>, \<^verbatim>\<open>.lower\<close> or \<^verbatim>\<open>.strip\<close> on a value that has none\<close>
  | FetchError          \<comment> \<open>network error, non-2xx status or undecodable image\<close>
  | ModelError          \<comment> \<open>the image model fails on its input\<close>

subsection \<open>Strings: \<^verbatim>\<open>str.lower\<close>, \<^verbatim>\<open>str.strip\<close>\<close>

text \<open>
  The cased letters below 256 are A to Z (65 to 90) and the capital letters 192 to 222
  without the multiplication sign 215; each has its lower-case letter 32 places on.
\<close>

definition lower_char :: "char \<Rightarrow> char" where
  "lower_char c =
     (let n = (of_char c :: nat)
      in if (65 \<le> n \<and> n \<le> 90) \<or> (192 \<le> n \<and> n \<le> 222 \<and> n \<noteq> 215)
         then char_of (n + 32) else c)"

definition lower :: "string \<Rightarrow> string" where
  "lower s = map lower_char s"

text \<open>
  The characters below 256 for which \<^verbatim>\<open>str.isspace\<close> holds, which are the ones that
  \<^verbatim>\<open>str.strip\<close> removes: 9 to 13, 28 to 32, the next-line character 133 and the
  no-break space 160.
\<close>

definition is_space :: "char \<Rightarrow> bool" where
  "is_space c =
     (let n = (of_char c :: nat)
      in (9 \<le> n \<and> n \<le> 13) \<or> (28 \<le> n \<and> n \<le> 32) \<or> n = 133 \<or> n = 160)"

definition strip :: "string \<Rightarrow> string" where
  "strip s = rev (dropWhile is_space (rev (dropWhile is_space s)))"

subsection \<open>Vectors and \<^verbatim>\<open>cosine_similarity\<close>\<close>

type_synonym vec = "real list"

definition np_dot :: "vec \<Rightarrow> vec \<Rightarrow> error + real" where
  "np_dot vec1 vec2 =
     (if length vec1 = length vec2
      then Inr (sum_list (map (\<lambda>(x, y). x * y) (zip vec1 vec2)))
      else Inl ValueError)"

definition np_linalg_norm :: "vec \<Rightarrow> real" where
  "np_linalg_norm v = sqrt (sum_list (map (\<lambda>x. x * x) v))"

definition divide_checked :: "real \<Rightarrow> real \<Rightarrow> error + real" where
  "divide_checked a b = (if b = 0 then Inl DivideByZero else Inr (a / b))"

text \<open>
  \<^verbatim>\<open>return (dot_product / (norm1 * norm2)) if (norm1 * norm2) > 0 else 0\<close>. The division
  is written as one that can fail, so that never dividing by zero is a statement about
  the result.
\<close>

definition cosine_similarity :: "vec \<Rightarrow> vec \<Rightarrow> error + real" where
  "cosine_similarity vec1 vec2 =
     (case np_dot vec1 vec2 of
        Inl e \<Rightarrow> Inl e
      | Inr dot_product \<Rightarrow>
          (let norm1 = np_linalg_norm vec1;
               norm2 = np_linalg_norm vec2
           in if norm1 * norm2 > 0 then divide_checked dot_product (norm1 * norm2) else Inr 0))"

subsection \<open>Rounding: \<^verbatim>\<open>round(x, ndigits)\<close>\<close>

text \<open>Python rounds to the nearest multiple of \<open>10 ^ -ndigits\<close>, a tie going to the even one.\<close>

definition round_half_even :: "real \<Rightarrow> int" where
  "round_half_even y =
     (let f = \<lfloor>y\<rfloor>; d = y - of_int f
      in if d < 1 / 2 then f else if 1 / 2 < d then f + 1 else if even f then f else f + 1)"

definition py_round :: "real \<Rightarrow> nat \<Rightarrow> real" where
  "py_round x ndigits = of_int (round_half_even (x * 10 ^ ndigits)) / 10 ^ ndigits"

subsection \<open>Data model\<close>

text \<open>
  A Firestore document: its id, its top-level fields and its nested \<^verbatim>\<open>metadata\<close> mapping
  when it stores one. Field values are text, as in the record shape the service consumes;
  a missing key is \<open>None\<close>.
\<close>

record doc =
  doc_id :: string
  doc_fields :: "string \<rightharpoonup> string"
  doc_metadata :: "(string \<rightharpoonup> string) option"

text \<open>The dictionary that \<^verbatim>\<open>fetch_items_from_firestore\<close> builds for one document.\<close>

record item =
  i_id :: string
  i_description :: string
  i_image_url :: "string option"
  i_metadata :: "string \<rightharpoonup> string option"

text \<open>The dictionary that \<^verbatim>\<open>calculate_similarity\<close> returns.\<close>

record similarity =
  overall_score :: real
  text_similarity :: "real option"
  image_similarity :: "real option"
  has_text :: bool
  has_image :: bool

text \<open>One entry of \<^verbatim>\<open>results\<close> in \<^verbatim>\<open>match_items\<close>.\<close>

record match_entry =
  m_item_id :: string
  m_similarity :: similarity
  m_description :: string
  m_metadata :: "string \<rightharpoonup> string option"
  m_has_image :: bool
  m_image_url :: "string option"

text \<open>
  The collaborators. \<open>db\<close> is \<open>None\<close> when Firebase failed to initialise; otherwise it
  gives, for a collection name, the documents its stream yields (up to the point where the
  stream raises, if it does). \<open>text_model_encode\<close> and \<open>image_model_encode\<close> are the two
  \<^verbatim>\<open>encode\<close> methods; \<open>open_image_url\<close> is the body of the \<^verbatim>\<open>try\<close> block of
  \<^verbatim>\<open>load_image_from_url\<close>: the request, \<^verbatim>\<open>raise_for_status\<close>, \<^verbatim>\<open>Image.open\<close> and
  \<^verbatim>\<open>convert\<close>.
\<close>

record 'img env =
  db :: "(string \<Rightarrow> doc list) option"
  text_model_encode :: "string \<Rightarrow> vec"
  image_model_encode :: "'img \<Rightarrow> error + vec"
  open_image_url :: "string \<Rightarrow> error + 'img"

definition TEXT_WEIGHT :: real where
  "TEXT_WEIGHT = 3 / 10"

definition IMAGE_WEIGHT :: real where
  "IMAGE_WEIGHT = 7 / 10"

subsection \<open>Embedding provider\<close>

definition load_image_from_url :: "'img env \<Rightarrow> string \<Rightarrow> 'img option" where
  "load_image_from_url env url =
     (case open_image_url env url of Inl e \<Rightarrow> None | Inr img \<Rightarrow> Some img)"

definition get_text_embedding :: "'img env \<Rightarrow> string \<Rightarrow> vec option" where
  "get_text_embedding env text =
     (if text = [] \<or> strip text = [] then None else Some (text_model_encode env text))"

definition get_image_embedding :: "'img env \<Rightarrow> 'img \<Rightarrow> vec option" where
  "get_image_embedding env img =
     (case image_model_encode env img of Inl e \<Rightarrow> None | Inr v \<Rightarrow> Some v)"

subsection \<open>\<^verbatim>\<open>fetch_items_from_firestore\<close>\<close>

definition doc_to_item :: "doc \<Rightarrow> item" where
  "doc_to_item d =
     (let data = doc_fields d in
      \<lparr> i_id = doc_id d,
        i_description = (case data ''description'' of None \<Rightarrow> [] | Some s \<Rightarrow> s),
        i_image_url =
          (case data ''imageUrl'' of
             None \<Rightarrow> data ''image_url''
           | Some u \<Rightarrow> if u \<noteq> [] then Some u else data ''image_url''),
        i_metadata =
          (\<lambda>k. if k \<in> set [''location'', ''date'', ''category'', ''contactInfo'']
                then Some (data k) else None)
          ++ (case doc_metadata d of
                None \<Rightarrow> Map.empty
              | Some m \<Rightarrow> (\<lambda>k. map_option Some (m k))) \<rparr>)"

definition fetch_items_from_firestore :: "'img env \<Rightarrow> string \<Rightarrow> item list" where
  "fetch_items_from_firestore env collection_name =
     (case db env of
        None \<Rightarrow> []
      | Some d \<Rightarrow> map doc_to_item (d collection_name))"

subsection \<open>\<^verbatim>\<open>calculate_similarity\<close>\<close>

text \<open>
  The function in its three commented sections. Each of the first two gives the pair
  \<open>(sim, has)\<close> that the section leaves in its two variables, or the exception that
  \<^verbatim>\<open>cosine_similarity\<close> raised.
\<close>

definition text_section :: "'img env \<Rightarrow> string \<Rightarrow> item \<Rightarrow> error + real \<times> bool" where
  "text_section env query_text target_item =
     (if query_text \<noteq> [] \<and> i_description target_item \<noteq> [] then
        (let query_text_emb = get_text_embedding env query_text;
             target_text_emb = get_text_embedding env (i_description target_item)
         in case (query_text_emb, target_text_emb) of
              (Some q, Some t) \<Rightarrow>
                (case cosine_similarity q t of
                   Inl e \<Rightarrow> Inl e
                 | Inr text_sim \<Rightarrow> Inr (text_sim, True))
            | _ \<Rightarrow> Inr (0, False))
      else Inr (0, False))"

definition image_section :: "'img env \<Rightarrow> 'img option \<Rightarrow> item \<Rightarrow> error + real \<times> bool" where
  "image_section env query_img target_item =
     (case (query_img, i_image_url target_item) of
        (Some qimg, Some url) \<Rightarrow>
          if url \<noteq> [] then
            (let query_img_emb = get_image_embedding env qimg;
                 target_img = load_image_from_url env url
             in case target_img of
                  None \<Rightarrow> Inr (0, False)
                | Some timg \<Rightarrow>
                    (let target_img_emb = get_image_embedding env timg
                     in case (query_img_emb, target_img_emb) of
                          (Some q, Some t) \<Rightarrow>
                            (case cosine_similarity q t of
                               Inl e \<Rightarrow> Inl e
                             | Inr image_sim \<Rightarrow> Inr (image_sim, True))
                        | _ \<Rightarrow> Inr (0, False)))
          else Inr (0, False)
      | _ \<Rightarrow> Inr (0, False))"

definition combined_score :: "real \<Rightarrow> bool \<Rightarrow> real \<Rightarrow> bool \<Rightarrow> real" where
  "combined_score text_sim has_text' image_sim has_image' =
     (if has_text' \<and> has_image' then TEXT_WEIGHT * text_sim + IMAGE_WEIGHT * image_sim
      else if has_text' then text_sim
      else if has_image' then image_sim
      else 0)"

definition similarity_result :: "real \<Rightarrow> bool \<Rightarrow> real \<Rightarrow> bool \<Rightarrow> similarity" where
  "similarity_result text_sim has_text' image_sim has_image' =
     (let score_percentage = combined_score text_sim has_text' image_sim has_image' * 100
      in \<lparr> overall_score = py_round score_percentage 2,
           text_similarity = (if has_text' then Some (py_round (text_sim * 100) 2) else None),
           image_similarity = (if has_image' then Some (py_round (image_sim * 100) 2) else None),
           has_text = has_text',
           has_image = has_image' \<rparr>)"

definition calculate_similarity ::
  "'img env \<Rightarrow> string \<Rightarrow> 'img option \<Rightarrow> item \<Rightarrow> error + similarity" where
  "calculate_similarity env query_text query_img target_item =
     (case text_section env query_text target_item of
        Inl e \<Rightarrow> Inl e
      | Inr (text_sim, has_text') \<Rightarrow>
          (case image_section env query_img target_item of
             Inl e \<Rightarrow> Inl e
           | Inr (image_sim, has_image') \<Rightarrow>
               Inr (similarity_result text_sim has_text' image_sim has_image')))"

subsection \<open>The \<^verbatim>\<open>/match\<close> endpoint\<close>

text \<open>
  A value of the JSON body: a string, or anything else (null, a number, a boolean, an
  array, an object), none of which has \<^verbatim>\<open>lower\<close> or \<^verbatim>\<open>strip\<close>.
\<close>

datatype jvalue = JString string | JOther

text \<open>
  An uploaded file of the form: its file name and what
  \<^verbatim>\<open>Image.open(image_file).convert('RGB')\<close> gives.
\<close>

record 'img upload =
  filename :: string
  opened :: "error + 'img"

text \<open>
  A request is JSON (\<^verbatim>\<open>request.is_json\<close>), with its parsed body, \<open>None\<close> when the body
  is not an object, or form data, with its text fields and its \<^verbatim>\<open>image\<close> file when the
  form has one.
\<close>

datatype 'img request =
    JsonRequest "(string \<rightharpoonup> jvalue) option"
  | FormRequest "string \<rightharpoonup> string" "'img upload option"

text \<open>
  The responses of \<^verbatim>\<open>match_items\<close>: an error with its status and message, the status 500
  of the \<^verbatim>\<open>except\<close> clause, whose message is the text of the exception, and the two bodies
  with status 200.
\<close>

datatype response =
    ErrorResponse nat string
  | ExceptionResponse error
  | NoItemsResponse string "match_entry list"
  | MatchesResponse string string nat "match_entry list"

fun status :: "response \<Rightarrow> nat" where
  "status (ErrorResponse code msg) = code"
| "status (ExceptionResponse e) = 500"
| "status (NoItemsResponse msg ms) = 200"
| "status (MatchesResponse query_type searched_in n ms) = 200"

fun matches :: "response \<Rightarrow> match_entry list option" where
  "matches (NoItemsResponse msg ms) = Some ms"
| "matches (MatchesResponse query_type searched_in n ms) = Some ms"
| "matches _ = None"

fun total_items :: "response \<Rightarrow> nat option" where
  "total_items (MatchesResponse query_type searched_in n ms) = Some n"
| "total_items _ = None"

fun searched_in :: "response \<Rightarrow> string option" where
  "searched_in (MatchesResponse query_type collection n ms) = Some collection"
| "searched_in _ = None"

fun message :: "response \<Rightarrow> string option" where
  "message (NoItemsResponse msg ms) = Some msg"
| "message _ = None"

text \<open>\<^verbatim>\<open>data.get(key, '')\<close> followed by a string method.\<close>

definition get_str :: "(string \<rightharpoonup> jvalue) \<Rightarrow> string \<Rightarrow> error + string" where
  "get_str data key =
     (case data key of
        None \<Rightarrow> Inr []
      | Some (JString s) \<Rightarrow> Inr s
      | Some JOther \<Rightarrow> Inl AttributeError)"

definition form_get :: "(string \<rightharpoonup> string) \<Rightarrow> string \<Rightarrow> string" where
  "form_get form key = (case form key of None \<Rightarrow> [] | Some s \<Rightarrow> s)"

text \<open>
  The first block of \<^verbatim>\<open>match_items\<close>: \<open>(query_type, query_text, query_img)\<close>. A value
  of \<^verbatim>\<open>imageUrl\<close> that is not a string gives no image: it is false, or
  \<^verbatim>\<open>load_image_from_url\<close> catches what \<^verbatim>\<open>requests.get\<close> raises on it.
\<close>

definition read_request ::
  "'img env \<Rightarrow> 'img request \<Rightarrow> error + string \<times> string \<times> 'img option" where
  "read_request env request =
     (case request of
        JsonRequest None \<Rightarrow> Inl AttributeError
      | JsonRequest (Some data) \<Rightarrow>
          (case get_str data ''type'' of
             Inl e \<Rightarrow> Inl e
           | Inr ty \<Rightarrow>
               (case get_str data ''text'' of
                  Inl e \<Rightarrow> Inl e
                | Inr tx \<Rightarrow>
                    Inr (lower ty, strip tx,
                         (case data ''imageUrl'' of
                            Some (JString image_url) \<Rightarrow>
                              if image_url \<noteq> [] then load_image_from_url env image_url else None
                          | _ \<Rightarrow> None))))
      | FormRequest form files \<Rightarrow>
          Inr (lower (form_get form ''type''), strip (form_get form ''text''),
               (case files of
                  None \<Rightarrow> None
                | Some image_file \<Rightarrow>
                    if filename image_file \<noteq> [] then
                      (case opened image_file of Inl e \<Rightarrow> None | Inr img \<Rightarrow> Some img)
                    else None)))"

definition search_collection_for :: "string \<Rightarrow> string" where
  "search_collection_for query_type =
     (if query_type = ''lost'' then ''found_items'' else ''lost_items'')"

definition truncate_description :: "string \<Rightarrow> string" where
  "truncate_description d = (if length d > 100 then take 100 d @ ''...'' else d)"

text \<open>The loop over \<^verbatim>\<open>target_items\<close>; an exception of \<^verbatim>\<open>calculate_similarity\<close> ends it.\<close>

fun score_targets ::
  "'img env \<Rightarrow> string \<Rightarrow> 'img option \<Rightarrow> item list \<Rightarrow> error + match_entry list" where
  "score_targets env query_text query_img [] = Inr []"
| "score_targets env query_text query_img (target # rest) =
     (case calculate_similarity env query_text query_img target of
        Inl e \<Rightarrow> Inl e
      | Inr sim \<Rightarrow>
          (case score_targets env query_text query_img rest of
             Inl e \<Rightarrow> Inl e
           | Inr results \<Rightarrow>
               Inr (\<lparr> m_item_id = i_id target,
                      m_similarity = sim,
                      m_description = truncate_description (i_description target),
                      m_metadata = i_metadata target,
                      m_has_image = (i_image_url target \<noteq> None),
                      m_image_url = i_image_url target \<rparr> # results)))"

text \<open>
  \<^verbatim>\<open>results.sort(key=..., reverse=True)\<close>: a stable sort, largest score first, entries of
  equal score in their order in \<^verbatim>\<open>results\<close>.
\<close>

definition sort_by_overall_score :: "match_entry list \<Rightarrow> match_entry list" where
  "sort_by_overall_score results = sort_key (\<lambda>x. - overall_score (m_similarity x)) results"

definition match_items :: "'img env \<Rightarrow> 'img request \<Rightarrow> response" where
  "match_items env request =
     (case db env of
        None \<Rightarrow> ErrorResponse 500 ''Firebase not initialized''
      | Some d \<Rightarrow>
          (case read_request env request of
             Inl e \<Rightarrow> ExceptionResponse e
           | Inr (query_type, query_text, query_img) \<Rightarrow>
               if query_type = [] \<or> query_type \<notin> set [''lost'', ''found''] then
                 ErrorResponse 400
                   (''type must be '' @ [CHR 0x22] @ ''lost'' @ [CHR 0x22] @ '' or ''
                      @ [CHR 0x22] @ ''found'' @ [CHR 0x22])
               else if query_text = [] then
                 ErrorResponse 400 ''text description is required''
               else
                 (let search_collection = search_collection_for query_type;
                      target_items = fetch_items_from_firestore env search_collection
                  in if target_items = [] then
                       NoItemsResponse
                         (''No items found in '' @ search_collection @ '' collection'') []
                     else
                       (case score_targets env query_text query_img target_items of
                          Inl e \<Rightarrow> ExceptionResponse e
                        | Inr results \<Rightarrow>
                            (let ranked = sort_by_overall_score results
                             in MatchesResponse query_type search_collection
                                  (length results) (take 20 ranked))))))"

subsection \<open>Calls to the models and to the network\<close>

text \<open>
  To count how often an embedding is computed, the same control flow is followed once
  more, giving the sequence of calls that reach a model or the network. A call is named
  after the variable of the source that receives its result: \<^verbatim>\<open>query_text_emb\<close>,
  \<^verbatim>\<open>target_text_emb\<close>, \<^verbatim>\<open>query_img_emb\<close>, \<^verbatim>\<open>target_img\<close>, \<^verbatim>\<open>target_img_emb\<close>, and
  \<^verbatim>\<open>query_img\<close> for the fetch of the query's image in \<^verbatim>\<open>match_items\<close>.
\<close>

datatype call =
    Query_text_emb | Target_text_emb | Query_img_emb | Target_img | Target_img_emb | Query_img

definition get_text_embedding_calls :: "call \<Rightarrow> string \<Rightarrow> call list" where
  "get_text_embedding_calls c text = (if text = [] \<or> strip text = [] then [] else [c])"

definition text_section_calls :: "string \<Rightarrow> item \<Rightarrow> call list" where
  "text_section_calls query_text target_item =
     (if query_text \<noteq> [] \<and> i_description target_item \<noteq> [] then
        get_text_embedding_calls Query_text_emb query_text
          @ get_text_embedding_calls Target_text_emb (i_description target_item)
      else [])"

definition image_section_calls :: "'img env \<Rightarrow> 'img option \<Rightarrow> item \<Rightarrow> call list" where
  "image_section_calls env query_img target_item =
     (case (query_img, i_image_url target_item) of
        (Some qimg, Some url) \<Rightarrow>
          if url \<noteq> [] then
            [Query_img_emb, Target_img]
              @ (case load_image_from_url env url of None \<Rightarrow> [] | Some timg \<Rightarrow> [Target_img_emb])
          else []
      | _ \<Rightarrow> [])"

definition calculate_similarity_calls ::
  "'img env \<Rightarrow> string \<Rightarrow> 'img option \<Rightarrow> item \<Rightarrow> call list" where
  "calculate_similarity_calls env query_text query_img target_item =
     text_section_calls query_text target_item
       @ (case text_section env query_text target_item of
            Inl e \<Rightarrow> []
          | Inr r \<Rightarrow> image_section_calls env query_img target_item)"

fun score_targets_calls ::
  "'img env \<Rightarrow> string \<Rightarrow> 'img option \<Rightarrow> item list \<Rightarrow> call list" where
  "score_targets_calls env query_text query_img [] = []"
| "score_targets_calls env query_text query_img (target # rest) =
     calculate_similarity_calls env query_text query_img target
       @ (case calculate_similarity env query_text query_img target of
            Inl e \<Rightarrow> []
          | Inr sim \<Rightarrow> score_targets_calls env query_text query_img rest)"

definition read_request_calls :: "'img request \<Rightarrow> call list" where
  "read_request_calls request =
     (case request of
        JsonRequest None \<Rightarrow> []
      | JsonRequest (Some data) \<Rightarrow>
          (case get_str data ''type'' of
             Inl e \<Rightarrow> []
           | Inr ty \<Rightarrow>
               (case get_str data ''text'' of
                  Inl e \<Rightarrow> []
                | Inr tx \<Rightarrow>
                    (case data ''imageUrl'' of
                       Some (JString image_url) \<Rightarrow> if image_url \<noteq> [] then [Query_img] else []
                     | _ \<Rightarrow> [])))
      | FormRequest form files \<Rightarrow> [])"

definition match_items_calls :: "'img env \<Rightarrow> 'img request \<Rightarrow> call list" where
  "match_items_calls env request =
     (case db env of
        None \<Rightarrow> []
      | Some d \<Rightarrow>
          read_request_calls request
            @ (case read_request env request of
                 Inl e \<Rightarrow> []
               | Inr (query_type, query_text, query_img) \<Rightarrow>
                   if query_type = [] \<or> query_type \<notin> set [''lost'', ''found''] then []
                   else if query_text = [] then []
                   else score_targets_calls env query_text query_img
                          (fetch_items_from_firestore env (search_collection_for query_type))))"

subsection \<open>A small store\<close>

text \<open>
  Three reports of found items: one with a description and a reachable image, one with a
  description and an image that cannot be fetched, one with neither. Images are numbered.
\<close>

definition example_docs :: "doc list" where
  "example_docs =
     [\<lparr> doc_id = ''f1'',
         doc_fields = [''description'' \<mapsto> ''black leather wallet'',
                       ''imageUrl'' \<mapsto> ''https://img/wallet''],
         doc_metadata = None \<rparr>,
      \<lparr> doc_id = ''f2'',
         doc_fields = [''description'' \<mapsto> ''red umbrella'',
                       ''imageUrl'' \<mapsto> ''https://img/broken''],
         doc_metadata = None \<rparr>,
      \<lparr> doc_id = ''f3'', doc_fields = Map.empty, doc_metadata = None \<rparr>]"

definition example_env :: "nat env" where
  "example_env =
     \<lparr> db = Some (\<lambda>c. if c = ''found_items'' then example_docs else []),
       text_model_encode =
         (\<lambda>s. if s = ''black wallet'' then [3, 4]
              else if s = ''black leather wallet'' then [4, 3]
              else [- 3, - 4]),
       image_model_encode =
         (\<lambda>img. if img = 2 then Inr [5, 0] else if img = 4 then Inr [3, 4] else Inl ModelError),
       open_image_url =
         (\<lambda>u. if u = ''https://img/query'' then Inr 2
              else if u = ''https://img/wallet'' then Inr 4
              else Inl FetchError) \<rparr>"

definition example_request :: "string \<Rightarrow> string \<Rightarrow> nat request" where
  "example_request ty tx =
     JsonRequest (Some [''type'' \<mapsto> JString ty, ''text'' \<mapsto> JString tx,
                        ''imageUrl'' \<mapsto> JString ''https://img/query''])"

text \<open>
  A store of 21 found items: twenty reports of a wallet, without image, and after them
  the umbrella whose image cannot be fetched.
\<close>

definition crowded_docs :: "doc list" where
  "crowded_docs =
     replicate 20
       \<lparr> doc_id = ''g'',
         doc_fields = [''description'' \<mapsto> ''black leather wallet''],
         doc_metadata = None \<rparr>
     @ [\<lparr> doc_id = ''f2'',
          doc_fields = [''description'' \<mapsto> ''red umbrella'',
                        ''imageUrl'' \<mapsto> ''https://img/broken''],
          doc_metadata = None \<rparr>]"

definition crowded_env :: "nat env" where
  "crowded_env =
     example_env \<lparr> db := Some (\<lambda>c. if c = ''found_items'' then crowded_docs else []) \<rparr>"

section \<open>Properties\<close>

lemmas eval_defs =
  match_items_def read_request_def get_str_def form_get_def lower_def lower_char_def
  char_of_eq_iff strip_def is_space_def search_collection_for_def
  fetch_items_from_firestore_def doc_to_item_def calculate_similarity_def text_section_def
  image_section_def get_text_embedding_def get_image_embedding_def load_image_from_url_def
  cosine_similarity_def np_dot_def np_linalg_norm_def divide_checked_def
  similarity_result_def combined_score_def TEXT_WEIGHT_def IMAGE_WEIGHT_def
  py_round_def round_half_even_def sort_by_overall_score_def truncate_description_def
  example_env_def example_docs_def example_request_def Let_def

subsection \<open>The similarity scorer\<close>

lemma sum_sq_nonneg: "0 \<le> sum_list (map (\<lambda>x::real. x * x) v)"
  by (induction v) auto

lemma np_linalg_norm_nonneg: "0 \<le> np_linalg_norm v"
  by (simp add: np_linalg_norm_def sum_sq_nonneg)

lemma cauchy_schwarz_sq:
  "length a = length b \<Longrightarrow>
   (sum_list (map (\<lambda>(x, y). x * y) (zip a b)))\<^sup>2
     \<le> sum_list (map (\<lambda>x::real. x * x) a) * sum_list (map (\<lambda>x. x * x) b)"
proof (induction a b rule: list_induct2)
  case Nil
  then show ?case by simp
next
  case (Cons x xs y ys)
  define D where "D = sum_list (map (\<lambda>(x, y). x * y) (zip xs ys))"
  define A where "A = sum_list (map (\<lambda>x::real. x * x) xs)"
  define B where "B = sum_list (map (\<lambda>x::real. x * x) ys)"
  have A0: "0 \<le> A" and B0: "0 \<le> B"
    by (simp_all add: A_def B_def sum_sq_nonneg)
  have IH: "D\<^sup>2 \<le> A * B"
    using Cons.IH by (simp add: D_def A_def B_def)
  have "(D * (x * y))\<^sup>2 \<le> (A * y\<^sup>2) * (B * x\<^sup>2)"
  proof -
    have "(D * (x * y))\<^sup>2 = D\<^sup>2 * (x\<^sup>2 * y\<^sup>2)"
      by (simp add: power_mult_distrib)
    also have "\<dots> \<le> (A * B) * (x\<^sup>2 * y\<^sup>2)"
      using IH by (intro mult_right_mono) auto
    finally show ?thesis by (simp add: algebra_simps)
  qed
  moreover have "(A * y\<^sup>2) * (B * x\<^sup>2) \<le> ((A * y\<^sup>2 + B * x\<^sup>2) / 2)\<^sup>2"
  proof -
    have "0 \<le> (A * y\<^sup>2 - B * x\<^sup>2)\<^sup>2" by simp
    then show ?thesis by (simp add: power2_eq_square algebra_simps)
  qed
  ultimately have "(D * (x * y))\<^sup>2 \<le> ((A * y\<^sup>2 + B * x\<^sup>2) / 2)\<^sup>2"
    by linarith
  moreover have "0 \<le> (A * y\<^sup>2 + B * x\<^sup>2) / 2"
    using A0 B0 by simp
  ultimately have "D * (x * y) \<le> (A * y\<^sup>2 + B * x\<^sup>2) / 2"
    using power2_le_imp_le by blast
  then have "(x * y + D)\<^sup>2 \<le> (x * x + A) * (y * y + B)"
    using IH by (simp add: power2_eq_square algebra_simps)
  then show ?case
    by (simp add: D_def A_def B_def)
qed

lemma abs_dot_le_norms:
  assumes "length a = length b"
  shows "\<bar>sum_list (map (\<lambda>(x, y). x * y) (zip a b))\<bar> \<le> np_linalg_norm a * np_linalg_norm b"
proof -
  have "\<bar>sum_list (map (\<lambda>(x, y). x * y) (zip a b))\<bar>
        = sqrt ((sum_list (map (\<lambda>(x, y). x * y) (zip a b)))\<^sup>2)"
    by simp
  also have "\<dots> \<le> sqrt (sum_list (map (\<lambda>x. x * x) a) * sum_list (map (\<lambda>x. x * x) b))"
    using cauchy_schwarz_sq [OF assms] by (simp only: real_sqrt_le_iff)
  also have "\<dots> = np_linalg_norm a * np_linalg_norm b"
    by (simp add: np_linalg_norm_def real_sqrt_mult)
  finally show ?thesis .
qed

lemma cosine_similarity_eq:
  assumes "length a = length b"
  shows "cosine_similarity a b =
           Inr (if 0 < np_linalg_norm a * np_linalg_norm b
                then sum_list (map (\<lambda>(x, y). x * y) (zip a b))
                       / (np_linalg_norm a * np_linalg_norm b)
                else 0)"
  using assms by (simp add: cosine_similarity_def np_dot_def divide_checked_def Let_def)

lemma cosine_similarity_Inr_length:
  "cosine_similarity a b = Inr c \<Longrightarrow> length a = length b"
  by (auto simp: cosine_similarity_def np_dot_def split: if_splits)

lemma cosine_similarity_bounds:
  assumes "cosine_similarity a b = Inr c"
  shows "- 1 \<le> c \<and> c \<le> 1"
proof -
  have len: "length a = length b"
    by (rule cosine_similarity_Inr_length [OF assms])
  let ?d = "sum_list (map (\<lambda>(x, y). x * y) (zip a b))"
  let ?n = "np_linalg_norm a * np_linalg_norm b"
  have c: "c = (if 0 < ?n then ?d / ?n else 0)"
    using assms cosine_similarity_eq [OF len] by simp
  show ?thesis
  proof (cases "0 < ?n")
    case True
    have "\<bar>?d\<bar> \<le> ?n" by (rule abs_dot_le_norms [OF len])
    then have "?d \<le> ?n" and "- ?n \<le> ?d" by linarith+
    then have "?d / ?n \<le> 1" and "- 1 \<le> ?d / ?n"
      using True by (simp_all add: pos_divide_le_eq pos_le_divide_eq)
    then show ?thesis using c True by simp
  next
    case False
    then show ?thesis using c by simp
  qed
qed

lemma norm_product_pos_iff:
  "0 < np_linalg_norm a * np_linalg_norm b \<longleftrightarrow> 0 < np_linalg_norm a \<and> 0 < np_linalg_norm b"
  using np_linalg_norm_nonneg [of a] np_linalg_norm_nonneg [of b]
  by (auto simp: zero_less_mult_iff)

text \<open>
  C4. On vectors of one length, \<^verbatim>\<open>cosine_similarity\<close> is the dot product divided by the
  product of the norms when both norms are positive, and 0 when a norm is zero; on no
  input at all does it divide by zero.
\<close>

theorem cosine_similarity_correct:
  "cosine_similarity a b \<noteq> Inl DivideByZero \<and>
   (length a = length b \<longrightarrow>
      cosine_similarity a b =
        Inr (if 0 < np_linalg_norm a \<and> 0 < np_linalg_norm b
             then sum_list (map (\<lambda>(x, y). x * y) (zip a b))
                    / (np_linalg_norm a * np_linalg_norm b)
             else 0)) \<and>
   (length a = length b \<longrightarrow> np_linalg_norm a = 0 \<or> np_linalg_norm b = 0 \<longrightarrow>
      cosine_similarity a b = Inr 0)"
proof (intro conjI impI)
  show "cosine_similarity a b \<noteq> Inl DivideByZero"
    by (auto simp: cosine_similarity_def np_dot_def divide_checked_def Let_def
             split: sum.splits if_splits)
next
  assume "length a = length b"
  then show "cosine_similarity a b =
        Inr (if 0 < np_linalg_norm a \<and> 0 < np_linalg_norm b
             then sum_list (map (\<lambda>(x, y). x * y) (zip a b))
                    / (np_linalg_norm a * np_linalg_norm b)
             else 0)"
    by (simp add: cosine_similarity_eq norm_product_pos_iff)
next
  assume "length a = length b" and "np_linalg_norm a = 0 \<or> np_linalg_norm b = 0"
  then show "cosine_similarity a b = Inr 0"
    by (auto simp: cosine_similarity_eq)
qed

theorem cosine_similarity_correct_witness:
  "length [3, 4 :: real] = length [4, 3 :: real] \<and>
   cosine_similarity [3, 4] [4, 3] = Inr (24 / 25) \<and>
   np_linalg_norm [0, 0] = 0 \<and>
   cosine_similarity [3, 4] [0, 0] = Inr 0"
  using cosine_similarity_correct [of "[3, 4]" "[4, 3]"]
        cosine_similarity_correct [of "[3, 4]" "[0, 0]"]
  by (simp add: np_linalg_norm_def)

subsection \<open>Rounding\<close>

lemma round_half_even_bounds: "\<lfloor>y\<rfloor> \<le> round_half_even y \<and> round_half_even y \<le> \<lceil>y\<rceil>"
  unfolding round_half_even_def Let_def
  by (auto simp: ceiling_altdef)

lemma py_round_bounds:
  assumes "- 100 \<le> x" "x \<le> 100"
  shows "- 100 \<le> py_round x 2 \<and> py_round x 2 \<le> 100"
proof -
  have lo: "(- 10000 :: int) \<le> \<lfloor>x * 100\<rfloor>" using assms by (simp add: le_floor_iff)
  have hi: "\<lceil>x * 100\<rceil> \<le> (10000 :: int)" using assms by (simp add: ceiling_le_iff)
  have "- 10000 \<le> round_half_even (x * 100)" "round_half_even (x * 100) \<le> 10000"
    using round_half_even_bounds [of "x * 100"] lo hi by linarith+
  then have "(- 10000 :: real) \<le> of_int (round_half_even (x * 100))"
            "of_int (round_half_even (x * 100)) \<le> (10000 :: real)"
    by linarith+
  then show ?thesis by (simp add: py_round_def)
qed

subsection \<open>The match combiner\<close>

lemma has_flags_similarity_result [simp]:
  "has_text (similarity_result ts ht isim hi) = ht"
  "has_image (similarity_result ts ht isim hi) = hi"
  by (simp_all add: similarity_result_def)

lemma calculate_similarity_Inr:
  assumes "calculate_similarity env query_text query_img target = Inr r"
  shows "\<exists>text_sim image_sim.
           text_section env query_text target = Inr (text_sim, has_text r) \<and>
           image_section env query_img target = Inr (image_sim, has_image r) \<and>
           r = similarity_result text_sim (has_text r) image_sim (has_image r)"
proof (cases "text_section env query_text target")
  case (Inl e)
  with assms show ?thesis by (simp add: calculate_similarity_def)
next
  case t: (Inr p)
  obtain ts ht where p: "p = (ts, ht)" by (cases p)
  show ?thesis
  proof (cases "image_section env query_img target")
    case (Inl e)
    with assms t p show ?thesis by (simp add: calculate_similarity_def)
  next
    case i: (Inr q)
    obtain isim hi where q: "q = (isim, hi)" by (cases q)
    from assms t p i q have r: "r = similarity_result ts ht isim hi"
      by (simp add: calculate_similarity_def)
    show ?thesis
      using t p i q unfolding r by simp
  qed
qed

lemma text_section_True:
  assumes "text_section env query_text target = Inr (text_sim, True)"
  shows "cosine_similarity (text_model_encode env query_text)
           (text_model_encode env (i_description target)) = Inr text_sim"
  using assms
  by (auto simp: text_section_def get_text_embedding_def Let_def
           split: if_splits sum.splits option.splits)

lemma text_section_False:
  "text_section env query_text target = Inr (text_sim, False) \<Longrightarrow> text_sim = 0"
  by (auto simp: text_section_def Let_def split: if_splits sum.splits option.splits)

lemma image_section_True:
  assumes "image_section env query_img target = Inr (image_sim, True)"
  shows "\<exists>qimg url timg qv tv.
           query_img = Some qimg \<and> i_image_url target = Some url \<and>
           open_image_url env url = Inr timg \<and>
           image_model_encode env qimg = Inr qv \<and> image_model_encode env timg = Inr tv \<and>
           cosine_similarity qv tv = Inr image_sim"
  using assms
  by (auto simp: image_section_def get_image_embedding_def load_image_from_url_def Let_def
           split: if_splits sum.splits option.splits)

lemma image_section_False:
  "image_section env query_img target = Inr (image_sim, False) \<Longrightarrow> image_sim = 0"
  by (auto simp: image_section_def Let_def split: if_splits sum.splits option.splits)

text \<open>
  C1. A result of \<^verbatim>\<open>calculate_similarity\<close> carries the two flags \<^verbatim>\<open>has_text\<close> and
  \<^verbatim>\<open>has_image\<close>; a modality that is present has the cosine of its two embeddings as its
  similarity. With both present the overall score is \<open>0.3 * text_sim + 0.7 * image_sim\<close>,
  with one present it is that modality's similarity, with the weight not applied, and so
  equal to the field reported for that modality; with none it is 0. The output is the
  score times 100, rounded to two decimals.
\<close>

theorem calculate_similarity_combines:
  assumes "calculate_similarity env query_text query_img target = Inr r"
  shows "\<exists>text_sim image_sim.
           text_section env query_text target = Inr (text_sim, has_text r) \<and>
           image_section env query_img target = Inr (image_sim, has_image r) \<and>
           (has_text r \<longrightarrow>
              cosine_similarity (text_model_encode env query_text)
                (text_model_encode env (i_description target)) = Inr text_sim) \<and>
           (has_image r \<longrightarrow>
              (\<exists>qimg url timg qv tv.
                 query_img = Some qimg \<and> i_image_url target = Some url \<and>
                 open_image_url env url = Inr timg \<and>
                 image_model_encode env qimg = Inr qv \<and> image_model_encode env timg = Inr tv \<and>
                 cosine_similarity qv tv = Inr image_sim)) \<and>
           (has_text r \<and> has_image r \<longrightarrow>
              overall_score r = py_round ((3 / 10 * text_sim + 7 / 10 * image_sim) * 100) 2) \<and>
           (has_text r \<and> \<not> has_image r \<longrightarrow>
              overall_score r = py_round (text_sim * 100) 2 \<and>
              text_similarity r = Some (overall_score r)) \<and>
           (\<not> has_text r \<and> has_image r \<longrightarrow>
              overall_score r = py_round (image_sim * 100) 2 \<and>
              image_similarity r = Some (overall_score r)) \<and>
           (\<not> has_text r \<and> \<not> has_image r \<longrightarrow> overall_score r = 0)"
proof -
  from calculate_similarity_Inr [OF assms] obtain text_sim image_sim where
    t: "text_section env query_text target = Inr (text_sim, has_text r)" and
    i: "image_section env query_img target = Inr (image_sim, has_image r)" and
    r: "r = similarity_result text_sim (has_text r) image_sim (has_image r)"
    by blast
  have zero: "py_round 0 2 = 0"
    by (simp add: py_round_def round_half_even_def)
  have score: "overall_score r =
      py_round (combined_score text_sim (has_text r) image_sim (has_image r) * 100) 2"
    by (subst r) (simp add: similarity_result_def)
  have tsim: "text_similarity r = (if has_text r then Some (py_round (text_sim * 100) 2) else None)"
    by (subst r) (simp add: similarity_result_def)
  have isim: "image_similarity r = (if has_image r then Some (py_round (image_sim * 100) 2) else None)"
    by (subst r) (simp add: similarity_result_def)
  have c1: "has_text r \<longrightarrow>
              cosine_similarity (text_model_encode env query_text)
                (text_model_encode env (i_description target)) = Inr text_sim"
  proof
    assume "has_text r"
    with t have "text_section env query_text target = Inr (text_sim, True)" by simp
    then show "cosine_similarity (text_model_encode env query_text)
                (text_model_encode env (i_description target)) = Inr text_sim"
      by (rule text_section_True)
  qed
  have c2: "has_image r \<longrightarrow>
              (\<exists>qimg url timg qv tv.
                 query_img = Some qimg \<and> i_image_url target = Some url \<and>
                 open_image_url env url = Inr timg \<and>
                 image_model_encode env qimg = Inr qv \<and> image_model_encode env timg = Inr tv \<and>
                 cosine_similarity qv tv = Inr image_sim)"
  proof
    assume "has_image r"
    with i have "image_section env query_img target = Inr (image_sim, True)" by simp
    then show "\<exists>qimg url timg qv tv.
                 query_img = Some qimg \<and> i_image_url target = Some url \<and>
                 open_image_url env url = Inr timg \<and>
                 image_model_encode env qimg = Inr qv \<and> image_model_encode env timg = Inr tv \<and>
                 cosine_similarity qv tv = Inr image_sim"
      by (rule image_section_True)
  qed
  have c3: "has_text r \<and> has_image r \<longrightarrow>
              overall_score r = py_round ((3 / 10 * text_sim + 7 / 10 * image_sim) * 100) 2"
    using score by (simp add: combined_score_def TEXT_WEIGHT_def IMAGE_WEIGHT_def)
  have c4: "has_text r \<and> \<not> has_image r \<longrightarrow>
              overall_score r = py_round (text_sim * 100) 2 \<and>
              text_similarity r = Some (overall_score r)"
    using score tsim by (simp add: combined_score_def)
  have c5: "\<not> has_text r \<and> has_image r \<longrightarrow>
              overall_score r = py_round (image_sim * 100) 2 \<and>
              image_similarity r = Some (overall_score r)"
    using score isim by (simp add: combined_score_def)
  have c6: "\<not> has_text r \<and> \<not> has_image r \<longrightarrow> overall_score r = 0"
    using score zero by (simp add: combined_score_def)
  from t i c1 c2 c3 c4 c5 c6 show ?thesis by blast
qed

theorem calculate_similarity_combines_witness:
  "calculate_similarity example_env ''black wallet'' (Some 2) (doc_to_item (hd example_docs)) =
     Inr \<lparr> overall_score = 708 / 10, text_similarity = Some 96, image_similarity = Some 60,
           has_text = True, has_image = True \<rparr> \<and>
   text_section example_env ''black wallet'' (doc_to_item (hd example_docs)) = Inr (24 / 25, True) \<and>
   image_section example_env (Some 2) (doc_to_item (hd example_docs)) = Inr (3 / 5, True) \<and>
   py_round ((3 / 10 * (24 / 25) + 7 / 10 * (3 / 5)) * 100) 2 = 708 / 10"
proof -
  have h: "calculate_similarity example_env ''black wallet'' (Some 2)
             (doc_to_item (hd example_docs)) =
           Inr \<lparr> overall_score = 708 / 10, text_similarity = Some 96,
                 image_similarity = Some 60, has_text = True, has_image = True \<rparr>"
    by (simp add: eval_defs)
  show ?thesis
    using calculate_similarity_combines [OF h] h by (simp add: eval_defs)
qed

subsection \<open>Range of the scores of one candidate\<close>

lemma text_section_bounds:
  assumes "text_section env query_text target = Inr (s, h)"
  shows "- 1 \<le> s \<and> s \<le> 1"
proof (cases h)
  case True
  with assms have "cosine_similarity (text_model_encode env query_text)
                     (text_model_encode env (i_description target)) = Inr s"
    by (simp add: text_section_True)
  then show ?thesis by (rule cosine_similarity_bounds)
next
  case False
  with assms have "s = 0" by (simp add: text_section_False)
  then show ?thesis by simp
qed

lemma image_section_bounds:
  assumes "image_section env query_img target = Inr (s, h)"
  shows "- 1 \<le> s \<and> s \<le> 1"
proof (cases h)
  case True
  with assms have "image_section env query_img target = Inr (s, True)" by simp
  from image_section_True [OF this] obtain qv tv where "cosine_similarity qv tv = Inr s"
    by blast
  then show ?thesis by (rule cosine_similarity_bounds)
next
  case False
  with assms have "s = 0" by (simp add: image_section_False)
  then show ?thesis by simp
qed

lemma combined_score_bounds:
  assumes "- 1 \<le> ts \<and> ts \<le> 1" and "- 1 \<le> isim \<and> isim \<le> 1"
  shows "- 1 \<le> combined_score ts ht isim hi \<and> combined_score ts ht isim hi \<le> 1"
  using assms by (auto simp: combined_score_def TEXT_WEIGHT_def IMAGE_WEIGHT_def)

lemma calculate_similarity_bounds:
  assumes "calculate_similarity env query_text query_img target = Inr r"
  shows "- 100 \<le> overall_score r \<and> overall_score r \<le> 100 \<and>
         (\<forall>t. text_similarity r = Some t \<longrightarrow> - 100 \<le> t \<and> t \<le> 100) \<and>
         (\<forall>i. image_similarity r = Some i \<longrightarrow> - 100 \<le> i \<and> i \<le> 100)"
proof -
  from calculate_similarity_Inr [OF assms] obtain ts isim where
    t: "text_section env query_text target = Inr (ts, has_text r)" and
    i: "image_section env query_img target = Inr (isim, has_image r)" and
    r: "r = similarity_result ts (has_text r) isim (has_image r)"
    by blast
  have tb: "- 1 \<le> ts \<and> ts \<le> 1" by (rule text_section_bounds [OF t])
  have ib: "- 1 \<le> isim \<and> isim \<le> 1" by (rule image_section_bounds [OF i])
  have cb: "- 1 \<le> combined_score ts (has_text r) isim (has_image r) \<and>
            combined_score ts (has_text r) isim (has_image r) \<le> 1"
    by (rule combined_score_bounds [OF tb ib])
  have o: "- 100 \<le> overall_score r \<and> overall_score r \<le> 100"
    by (subst (1 2) r) (use cb in \<open>simp add: similarity_result_def py_round_bounds\<close>)
  have tx: "\<forall>t. text_similarity r = Some t \<longrightarrow> - 100 \<le> t \<and> t \<le> 100"
    by (subst r) (use tb in \<open>auto simp add: similarity_result_def py_round_bounds\<close>)
  have im: "\<forall>i. image_similarity r = Some i \<longrightarrow> - 100 \<le> i \<and> i \<le> 100"
    by (subst r) (use ib in \<open>auto simp add: similarity_result_def py_round_bounds\<close>)
  from o tx im show ?thesis by blast
qed

subsection \<open>The scoring loop and the shape of the response\<close>

lemma score_targets_entries:
  assumes "score_targets env query_text query_img targets = Inr results"
  shows "length results = length targets \<and>
         map m_item_id results = map i_id targets \<and>
         (\<forall>k < length targets.
            calculate_similarity env query_text query_img (targets ! k)
              = Inr (m_similarity (results ! k)))"
  using assms
proof (induction targets arbitrary: results)
  case Nil
  then show ?case by simp
next
  case (Cons t ts)
  from Cons.prems obtain sim rest where
    sim: "calculate_similarity env query_text query_img t = Inr sim" and
    rest: "score_targets env query_text query_img ts = Inr rest" and
    res: "results = \<lparr> m_item_id = i_id t, m_similarity = sim,
                       m_description = truncate_description (i_description t),
                       m_metadata = i_metadata t,
                       m_has_image = (i_image_url t \<noteq> None),
                       m_image_url = i_image_url t \<rparr> # rest"
    by (auto split: sum.splits)
  from Cons.IH [OF rest] show ?case
    unfolding res using sim by (auto simp: nth_Cons split: nat.splits)
qed

lemma score_targets_member:
  assumes "score_targets env query_text query_img targets = Inr results" and "m \<in> set results"
  shows "\<exists>t \<in> set targets. calculate_similarity env query_text query_img t = Inr (m_similarity m)"
proof -
  from assms(2) obtain k where k: "k < length results" and m: "results ! k = m"
    by (auto simp: in_set_conv_nth)
  from score_targets_entries [OF assms(1)] k m show ?thesis
    by (metis nth_mem)
qed

lemma match_items_valid:
  assumes "db env = Some d"
    and "read_request env request = Inr (query_type, query_text, query_img)"
    and "query_type = ''lost'' \<or> query_type = ''found''"
    and "query_text \<noteq> []"
  shows "match_items env request =
           (let c = search_collection_for query_type in
            if d c = [] then NoItemsResponse (''No items found in '' @ c @ '' collection'') []
            else (case score_targets env query_text query_img (map doc_to_item (d c)) of
                    Inl e \<Rightarrow> ExceptionResponse e
                  | Inr results \<Rightarrow>
                      MatchesResponse query_type c (length results)
                        (take 20 (sort_by_overall_score results))))"
  using assms
  by (auto simp: match_items_def fetch_items_from_firestore_def Let_def split: sum.splits)

lemma match_items_Matches:
  assumes "match_items env request = MatchesResponse qt c n ms"
  shows "\<exists>d query_text query_img results.
           db env = Some d \<and>
           read_request env request = Inr (qt, query_text, query_img) \<and>
           (qt = ''lost'' \<or> qt = ''found'') \<and> query_text \<noteq> [] \<and>
           c = search_collection_for qt \<and>
           score_targets env query_text query_img (map doc_to_item (d c)) = Inr results \<and>
           n = length results \<and> ms = take 20 (sort_by_overall_score results)"
proof (cases "db env")
  case None
  with assms show ?thesis by (simp add: match_items_def)
next
  case (Some d)
  show ?thesis
  proof (cases "read_request env request")
    case (Inl e)
    with assms Some show ?thesis by (simp add: match_items_def)
  next
    case (Inr p)
    obtain query_type query_text query_img where p: "p = (query_type, query_text, query_img)"
      by (cases p)
    have rr: "read_request env request = Inr (query_type, query_text, query_img)"
      using Inr p by simp
    show ?thesis
    proof (cases "(query_type = ''lost'' \<or> query_type = ''found'') \<and> query_text \<noteq> []")
      case False
      with assms Some rr show ?thesis
        by (auto simp: match_items_def split: if_splits)
    next
      case True
      then have v: "query_type = ''lost'' \<or> query_type = ''found''" and t: "query_text \<noteq> []"
        by simp_all
      from assms match_items_valid [OF Some rr v t] rr v t Some show ?thesis
        by (auto simp: Let_def split: if_splits sum.splits)
    qed
  qed
qed

lemma match_items_NoItems:
  assumes "match_items env request = NoItemsResponse msg ms"
  shows "ms = []"
  using assms
  by (auto simp: match_items_def Let_def split: option.splits sum.splits prod.splits if_splits)

subsection \<open>Scoring that raises nothing\<close>

lemma image_section_no_query_image: "image_section env None target = Inr (0, False)"
  by (simp add: image_section_def)

lemma image_section_unreachable:
  assumes "i_image_url target = Some url" and "load_image_from_url env url = None"
  shows "image_section env query_img target = Inr (0, False)"
  using assms by (cases query_img) (simp_all add: image_section_def Let_def)

lemma calculate_similarity_unreachable:
  assumes "i_image_url target = Some url" and "load_image_from_url env url = None"
  shows "calculate_similarity env query_text query_img target
           = calculate_similarity env query_text None target"
  unfolding calculate_similarity_def
  by (simp only: image_section_unreachable [OF assms] image_section_no_query_image)

lemma calculate_similarity_no_image:
  assumes "calculate_similarity env query_text None target = Inr r"
  shows "image_similarity r = None \<and> \<not> has_image r"
proof -
  from calculate_similarity_Inr [OF assms] obtain ts isim where
    i: "image_section env None target = Inr (isim, has_image r)" and
    r: "r = similarity_result ts (has_text r) isim (has_image r)"
    by blast
  from i have h: "\<not> has_image r" by (simp add: image_section_no_query_image)
  have "image_similarity r = (if has_image r then Some (py_round (isim * 100) 2) else None)"
    by (subst r) (simp add: similarity_result_def)
  with h show ?thesis by simp
qed

lemma text_section_total:
  assumes "\<forall>s s'. length (text_model_encode env s) = length (text_model_encode env s')"
  shows "\<exists>p. text_section env query_text target = Inr p"
proof -
  have "length (text_model_encode env query_text)
          = length (text_model_encode env (i_description target))"
    using assms by blast
  then show ?thesis
    by (auto simp: text_section_def get_text_embedding_def cosine_similarity_eq Let_def)
qed

lemma image_section_total:
  assumes "\<forall>i i' v v'. image_model_encode env i = Inr v \<longrightarrow>
             image_model_encode env i' = Inr v' \<longrightarrow> length v = length v'"
  shows "\<exists>p. image_section env query_img target = Inr p"
proof -
  have len: "length v = length v'"
    if "image_model_encode env i = Inr v" and "image_model_encode env i' = Inr v'"
    for i i' v v'
    using assms that by blast
  show ?thesis
    by (auto simp: image_section_def get_image_embedding_def Let_def
                   cosine_similarity_eq [OF len]
             split: option.splits sum.splits)
qed

lemma calculate_similarity_total:
  assumes "\<forall>s s'. length (text_model_encode env s) = length (text_model_encode env s')"
    and "\<forall>i i' v v'. image_model_encode env i = Inr v \<longrightarrow>
             image_model_encode env i' = Inr v' \<longrightarrow> length v = length v'"
  shows "\<exists>r. calculate_similarity env query_text query_img target = Inr r"
proof -
  from text_section_total [OF assms(1)] obtain p where
    p: "text_section env query_text target = Inr p" by blast
  from image_section_total [OF assms(2)] obtain q where
    q: "image_section env query_img target = Inr q" by blast
  show ?thesis
    by (cases p; cases q) (simp add: calculate_similarity_def p q)
qed

lemma score_targets_total:
  assumes "\<forall>s s'. length (text_model_encode env s) = length (text_model_encode env s')"
    and "\<forall>i i' v v'. image_model_encode env i = Inr v \<longrightarrow>
             image_model_encode env i' = Inr v' \<longrightarrow> length v = length v'"
  shows "\<exists>results. score_targets env query_text query_img targets = Inr results"
proof (induction targets)
  case Nil
  show ?case by simp
next
  case (Cons t ts)
  from calculate_similarity_total [OF assms] obtain r where
    "calculate_similarity env query_text query_img t = Inr r" by blast
  moreover from Cons.IH obtain rest where
    "score_targets env query_text query_img ts = Inr rest" by blast
  ultimately show ?case by simp
qed

subsection \<open>Ranking and truncation\<close>

lemma sorted_sort_by_overall_score:
  "sorted_wrt (\<lambda>a b. overall_score (m_similarity b) \<le> overall_score (m_similarity a))
     (sort_by_overall_score results)"
proof -
  have "sorted (map (\<lambda>x. - overall_score (m_similarity x))
                  (sort_key (\<lambda>x. - overall_score (m_similarity x)) results))"
    by (rule sorted_sort_key)
  then show ?thesis
    by (simp add: sorted_map sort_by_overall_score_def)
qed

lemma length_sort_by_overall_score [simp]:
  "length (sort_by_overall_score results) = length results"
  by (simp add: sort_by_overall_score_def)

lemma set_sort_by_overall_score [simp]:
  "set (sort_by_overall_score results) = set results"
  by (simp add: sort_by_overall_score_def)

lemma sorted_wrt_take_ranked:
  "sorted_wrt (\<lambda>a b. overall_score (m_similarity b) \<le> overall_score (m_similarity a))
     (take k (sort_by_overall_score results))"
  by (rule sorted_wrt_take [OF sorted_sort_by_overall_score])

lemma matches_sorted_at_most_20:
  assumes "matches (match_items env request) = Some ms"
  shows "sorted_wrt (\<lambda>a b. overall_score (m_similarity b) \<le> overall_score (m_similarity a)) ms
         \<and> length ms \<le> 20"
proof (cases "match_items env request")
  case (ErrorResponse code msg)
  with assms show ?thesis by simp
next
  case (ExceptionResponse e)
  with assms show ?thesis by simp
next
  case (NoItemsResponse msg ms')
  then have "ms' = []" by (rule match_items_NoItems)
  with NoItemsResponse assms show ?thesis by simp
next
  case (MatchesResponse qt c n ms')
  from match_items_Matches [OF this] obtain results where
    "ms' = take 20 (sort_by_overall_score results)"
    by blast
  with MatchesResponse assms have ms: "ms = take 20 (sort_by_overall_score results)"
    by simp
  show ?thesis
    unfolding ms using sorted_wrt_take_ranked [of 20 results] by simp
qed

lemma ranked_cut_below_kept:
  assumes "a \<in> set (take k (sort_by_overall_score results))"
    and "b \<in> set (drop k (sort_by_overall_score results))"
  shows "overall_score (m_similarity b) \<le> overall_score (m_similarity a)"
proof -
  let ?r = "sort_by_overall_score results"
  have "sorted_wrt (\<lambda>a b. overall_score (m_similarity b) \<le> overall_score (m_similarity a))
          (take k ?r @ drop k ?r)"
    using sorted_sort_by_overall_score [of results] by simp
  with assms show ?thesis
    unfolding sorted_wrt_append by blast
qed

text \<open>
  C2, as the code has it. Take a valid request to an initialised store whose scoring loop
  runs to its end. Over a non-empty candidate set, \<^verbatim>\<open>matches\<close> is the first 20 (or all, if
  fewer) of the candidates' entries sorted by \<^verbatim>\<open>overall_score\<close> in non-increasing order,
  no entry that was cut has a higher score than one that was kept, and \<^verbatim>\<open>total_items\<close> is
  the number of candidates before the cut. Over an empty candidate set the response has
  \<^verbatim>\<open>matches: []\<close> and no \<^verbatim>\<open>total_items\<close>.
\<close>

theorem match_items_ranking:
  assumes "db env = Some d"
    and "read_request env request = Inr (query_type, query_text, query_img)"
    and "query_type = ''lost'' \<or> query_type = ''found''"
    and "query_text \<noteq> []"
    and "score_targets env query_text query_img
           (map doc_to_item (d (search_collection_for query_type))) = Inr results"
  shows "(d (search_collection_for query_type) \<noteq> [] \<longrightarrow>
            total_items (match_items env request)
              = Some (length (d (search_collection_for query_type))) \<and>
            searched_in (match_items env request) = Some (search_collection_for query_type) \<and>
            matches (match_items env request) = Some (take 20 (sort_by_overall_score results)) \<and>
            length (take 20 (sort_by_overall_score results))
              = min 20 (length (d (search_collection_for query_type))) \<and>
            map m_item_id results = map doc_id (d (search_collection_for query_type)) \<and>
            set (sort_by_overall_score results) = set results \<and>
            sorted_wrt (\<lambda>a b. overall_score (m_similarity b) \<le> overall_score (m_similarity a))
              (take 20 (sort_by_overall_score results)) \<and>
            (\<forall>a \<in> set (take 20 (sort_by_overall_score results)).
               \<forall>b \<in> set (drop 20 (sort_by_overall_score results)).
                 overall_score (m_similarity b) \<le> overall_score (m_similarity a))) \<and>
         (d (search_collection_for query_type) = [] \<longrightarrow>
            matches (match_items env request) = Some [] \<and>
            total_items (match_items env request) = None)"
proof (intro conjI impI)
  let ?c = "search_collection_for query_type"
  note valid = match_items_valid [OF assms(1) assms(2) assms(3) assms(4)]
  note ent = score_targets_entries [OF assms(5)]
  have len: "length results = length (d ?c)" using ent by simp
  {
    assume ne: "d ?c \<noteq> []"
    have resp: "match_items env request =
        MatchesResponse query_type ?c (length results) (take 20 (sort_by_overall_score results))"
      using valid assms(5) ne by (simp add: Let_def)
    show "total_items (match_items env request) = Some (length (d ?c))"
      using resp len by simp
    show "searched_in (match_items env request) = Some ?c"
      using resp by simp
    show "matches (match_items env request) = Some (take 20 (sort_by_overall_score results))"
      using resp by simp
    show "length (take 20 (sort_by_overall_score results)) = min 20 (length (d ?c))"
      using len by (simp add: min_def)
    show "map m_item_id results = map doc_id (d ?c)"
      using ent by (simp add: doc_to_item_def Let_def comp_def)
    show "set (sort_by_overall_score results) = set results"
      by simp
    show "sorted_wrt (\<lambda>a b. overall_score (m_similarity b) \<le> overall_score (m_similarity a))
            (take 20 (sort_by_overall_score results))"
      by (rule sorted_wrt_take_ranked)
    show "\<forall>a \<in> set (take 20 (sort_by_overall_score results)).
            \<forall>b \<in> set (drop 20 (sort_by_overall_score results)).
              overall_score (m_similarity b) \<le> overall_score (m_similarity a)"
      using ranked_cut_below_kept by blast
  }
  {
    assume e: "d ?c = []"
    show "matches (match_items env request) = Some []"
      using valid e by (simp add: Let_def)
    show "total_items (match_items env request) = None"
      using valid e by (simp add: Let_def)
  }
qed

text \<open>On the store of 21 items: \<^verbatim>\<open>total_items\<close> is 21 and 20 matches are returned.\<close>

theorem match_items_ranking_witness:
  "read_request crowded_env (example_request ''lost'' ''black wallet'')
     = Inr (''lost'', ''black wallet'', Some 2) \<and>
   length crowded_docs = 21 \<and>
   total_items (match_items crowded_env (example_request ''lost'' ''black wallet'')) = Some 21 \<and>
   searched_in (match_items crowded_env (example_request ''lost'' ''black wallet''))
     = Some ''found_items'' \<and>
   matches (match_items crowded_env (example_request ''lost'' ''black wallet'')) \<noteq> None \<and>
   length (the (matches (match_items crowded_env (example_request ''lost'' ''black wallet''))))
     = 20 \<and>
   sorted_wrt (\<lambda>a b. overall_score (m_similarity b) \<le> overall_score (m_similarity a))
     (the (matches (match_items crowded_env (example_request ''lost'' ''black wallet''))))"
proof -
  let ?d = "\<lambda>c. if c = ''found_items'' then crowded_docs else []"
  have d: "db crowded_env = Some ?d"
    by (simp add: crowded_env_def)
  have r: "read_request crowded_env (example_request ''lost'' ''black wallet'')
             = Inr (''lost'', ''black wallet'', Some 2)"
    by (simp add: eval_defs crowded_env_def)
  have v: "''lost'' = ''lost'' \<or> ''lost'' = ''found''" by simp
  have t: "''black wallet'' \<noteq> []" by simp
  have dt: "\<forall>s s'. length (text_model_encode crowded_env s)
                     = length (text_model_encode crowded_env s')"
    by (simp add: crowded_env_def example_env_def)
  have di: "\<forall>i i' v v'. image_model_encode crowded_env i = Inr v \<longrightarrow>
              image_model_encode crowded_env i' = Inr v' \<longrightarrow> length v = length v'"
    by (auto simp: crowded_env_def example_env_def split: if_splits)
  from score_targets_total [OF dt di] obtain results where
    sc: "score_targets crowded_env ''black wallet'' (Some 2)
           (map doc_to_item (?d (search_collection_for ''lost''))) = Inr results"
    by blast
  have n: "length crowded_docs = 21"
    by (simp add: crowded_docs_def)
  have c: "?d (search_collection_for ''lost'') = crowded_docs"
    by (simp add: search_collection_for_def)
  have ne: "crowded_docs \<noteq> []" using n by auto
  from match_items_ranking [OF d r v t sc] c ne n r
  show ?thesis by (simp add: search_collection_for_def)
qed

text \<open>
  Over an empty candidate set no \<^verbatim>\<open>total_items\<close> is returned, so none that equals the
  number of candidates.
\<close>

theorem ranking_total_items_counterexample:
  "length (fetch_items_from_firestore example_env ''lost_items'') = 0 \<and>
   matches (match_items example_env (example_request ''found'' ''black wallet'')) = Some [] \<and>
   total_items (match_items example_env (example_request ''found'' ''black wallet'')) = None \<and>
   total_items (match_items example_env (example_request ''found'' ''black wallet''))
     \<noteq> Some (length (fetch_items_from_firestore example_env ''lost_items''))"
  by (simp add: eval_defs)

text \<open>
  C7, as the code has it. A cosine lies between -1 and 1 and nothing clamps it at 0, so
  for every entry of \<^verbatim>\<open>matches\<close> the \<^verbatim>\<open>overall_score\<close> lies between -100 and 100, and
  \<^verbatim>\<open>text_similarity\<close> and \<^verbatim>\<open>image_similarity\<close>, when present, lie between -100 and 100.
\<close>

theorem match_items_score_range:
  assumes "matches (match_items env request) = Some ms" and "m \<in> set ms"
  shows "- 100 \<le> overall_score (m_similarity m) \<and> overall_score (m_similarity m) \<le> 100 \<and>
         (\<forall>t. text_similarity (m_similarity m) = Some t \<longrightarrow> - 100 \<le> t \<and> t \<le> 100) \<and>
         (\<forall>i. image_similarity (m_similarity m) = Some i \<longrightarrow> - 100 \<le> i \<and> i \<le> 100)"
proof (cases "match_items env request")
  case (ErrorResponse code msg)
  with assms show ?thesis by simp
next
  case (ExceptionResponse e)
  with assms show ?thesis by simp
next
  case (NoItemsResponse msg ms')
  then have "ms' = []" by (rule match_items_NoItems)
  with NoItemsResponse assms show ?thesis by simp
next
  case (MatchesResponse qt c n ms')
  from match_items_Matches [OF this] obtain d query_text query_img results where
    sc: "score_targets env query_text query_img (map doc_to_item (d c)) = Inr results" and
    ms': "ms' = take 20 (sort_by_overall_score results)"
    by blast
  from assms MatchesResponse ms' have "m \<in> set (take 20 (sort_by_overall_score results))"
    by simp
  then have "m \<in> set results"
    using set_take_subset [of 20 "sort_by_overall_score results"] by auto
  from score_targets_member [OF sc this] obtain t where
    "calculate_similarity env query_text query_img t = Inr (m_similarity m)"
    by blast
  then show ?thesis by (rule calculate_similarity_bounds)
qed

theorem match_items_score_range_witness:
  "map_option (map (\<lambda>m. (m_item_id m, overall_score (m_similarity m))))
     (matches (match_items example_env (example_request ''lost'' ''black wallet'')))
     = Some [(''f1'', 708 / 10), (''f3'', 0), (''f2'', - 100)] \<and>
   - 100 \<le> overall_score (m_similarity
      (the (matches (match_items example_env (example_request ''lost'' ''black wallet''))) ! 2)) \<and>
   overall_score (m_similarity
      (the (matches (match_items example_env (example_request ''lost'' ''black wallet''))) ! 2)) \<le> 100"
proof -
  let ?r = "match_items example_env (example_request ''lost'' ''black wallet'')"
  have ev: "map_option (map (\<lambda>m. (m_item_id m, overall_score (m_similarity m)))) (matches ?r)
              = Some [(''f1'', 708 / 10), (''f3'', 0), (''f2'', - 100)]"
    by (simp add: eval_defs)
  then obtain ms where ms: "matches ?r = Some ms" and len: "length ms = 3"
    by (cases "matches ?r") auto
  then have "ms ! 2 \<in> set ms" by simp
  from match_items_score_range [OF ms this] ms ev show ?thesis by simp
qed

text \<open>
  The lower bound 0 fails: a description whose embedding points away from the query's
  gets the score -100.
\<close>

theorem score_range_counterexample:
  "map_option (map (\<lambda>m. (m_item_id m, overall_score (m_similarity m))))
     (matches (match_items example_env
        (JsonRequest (Some [''type'' \<mapsto> JString ''lost'', ''text'' \<mapsto> JString ''black wallet'']))))
     = Some [(''f1'', 96), (''f3'', 0), (''f2'', - 100)] \<and>
   (- 100 :: real) < 0"
  by (simp add: eval_defs)

subsection \<open>Choice of the collection\<close>

text \<open>
  C3. Once the request is read, with a non-empty \<^verbatim>\<open>query_text\<close> and an initialised store,
  a \<^verbatim>\<open>query_type\<close> of \<^verbatim>\<open>lost\<close> makes the response a function of the collection
  \<^verbatim>\<open>found_items\<close> alone, which it names in \<^verbatim>\<open>searched_in\<close>, and a \<^verbatim>\<open>query_type\<close> of
  \<^verbatim>\<open>found\<close> does the same with \<^verbatim>\<open>lost_items\<close>.
\<close>

theorem match_items_searches_opposite_collection:
  assumes "db env = Some d"
    and "read_request env request = Inr (query_type, query_text, query_img)"
    and "query_text \<noteq> []"
  shows "(query_type = ''lost'' \<longrightarrow>
            match_items env request =
              (if d ''found_items'' = [] then
                 NoItemsResponse ''No items found in found_items collection'' []
               else (case score_targets env query_text query_img
                            (map doc_to_item (d ''found_items'')) of
                       Inl e \<Rightarrow> ExceptionResponse e
                     | Inr results \<Rightarrow>
                         MatchesResponse ''lost'' ''found_items'' (length results)
                           (take 20 (sort_by_overall_score results))))) \<and>
         (query_type = ''found'' \<longrightarrow>
            match_items env request =
              (if d ''lost_items'' = [] then
                 NoItemsResponse ''No items found in lost_items collection'' []
               else (case score_targets env query_text query_img
                            (map doc_to_item (d ''lost_items'')) of
                       Inl e \<Rightarrow> ExceptionResponse e
                     | Inr results \<Rightarrow>
                         MatchesResponse ''found'' ''lost_items'' (length results)
                           (take 20 (sort_by_overall_score results)))))"
proof (intro conjI impI)
  assume "query_type = ''lost''"
  with assms(2) have rr: "read_request env request = Inr (''lost'', query_text, query_img)"
    by simp
  have v: "''lost'' = ''lost'' \<or> ''lost'' = ''found''" by simp
  show "match_items env request =
              (if d ''found_items'' = [] then
                 NoItemsResponse ''No items found in found_items collection'' []
               else (case score_targets env query_text query_img
                            (map doc_to_item (d ''found_items'')) of
                       Inl e \<Rightarrow> ExceptionResponse e
                     | Inr results \<Rightarrow>
                         MatchesResponse ''lost'' ''found_items'' (length results)
                           (take 20 (sort_by_overall_score results))))"
    using match_items_valid [OF assms(1) rr v assms(3)]
    by (simp add: search_collection_for_def Let_def)
next
  assume "query_type = ''found''"
  with assms(2) have rr: "read_request env request = Inr (''found'', query_text, query_img)"
    by simp
  have v: "''found'' = ''lost'' \<or> ''found'' = ''found''" by simp
  show "match_items env request =
              (if d ''lost_items'' = [] then
                 NoItemsResponse ''No items found in lost_items collection'' []
               else (case score_targets env query_text query_img
                            (map doc_to_item (d ''lost_items'')) of
                       Inl e \<Rightarrow> ExceptionResponse e
                     | Inr results \<Rightarrow>
                         MatchesResponse ''found'' ''lost_items'' (length results)
                           (take 20 (sort_by_overall_score results))))"
    using match_items_valid [OF assms(1) rr v assms(3)]
    by (simp add: search_collection_for_def Let_def)
qed

theorem match_items_searches_opposite_collection_witness:
  "db example_env = Some (\<lambda>c. if c = ''found_items'' then example_docs else []) \<and>
   read_request example_env (example_request ''lost'' ''black wallet'')
     = Inr (''lost'', ''black wallet'', Some 2) \<and>
   read_request example_env (example_request ''found'' ''black wallet'')
     = Inr (''found'', ''black wallet'', Some 2) \<and>
   searched_in (match_items example_env (example_request ''lost'' ''black wallet''))
     = Some ''found_items'' \<and>
   total_items (match_items example_env (example_request ''lost'' ''black wallet'')) = Some 3 \<and>
   match_items example_env (example_request ''found'' ''black wallet'')
     = NoItemsResponse ''No items found in lost_items collection'' []"
proof -
  have d: "db example_env = Some (\<lambda>c. if c = ''found_items'' then example_docs else [])"
    by (simp add: example_env_def)
  have r1: "read_request example_env (example_request ''lost'' ''black wallet'')
              = Inr (''lost'', ''black wallet'', Some 2)"
    by (simp add: eval_defs)
  have r2: "read_request example_env (example_request ''found'' ''black wallet'')
              = Inr (''found'', ''black wallet'', Some 2)"
    by (simp add: eval_defs)
  have t: "''black wallet'' \<noteq> []" by simp
  have sc: "\<exists>results. score_targets example_env ''black wallet'' (Some 2)
              (map doc_to_item example_docs) = Inr results \<and> length results = 3"
    by (simp add: eval_defs)
  from match_items_searches_opposite_collection [OF d r1 t]
       match_items_searches_opposite_collection [OF d r2 t] d r1 r2 sc
  show ?thesis by (auto simp: example_docs_def)
qed

subsection \<open>An empty collection\<close>

text \<open>
  C8, as the code has it. When the collection to search is empty, a valid request gets a
  response of status 200 with \<^verbatim>\<open>matches: []\<close> and a message that names the collection;
  this response has no \<^verbatim>\<open>total_items\<close>.
\<close>

theorem match_items_empty_collection:
  assumes "db env = Some d"
    and "read_request env request = Inr (query_type, query_text, query_img)"
    and "query_type = ''lost'' \<or> query_type = ''found''"
    and "query_text \<noteq> []"
    and "d (search_collection_for query_type) = []"
  shows "match_items env request =
           NoItemsResponse
             (''No items found in '' @ search_collection_for query_type @ '' collection'') [] \<and>
         status (match_items env request) = 200 \<and>
         matches (match_items env request) = Some [] \<and>
         message (match_items env request) =
           Some (''No items found in '' @ search_collection_for query_type @ '' collection'') \<and>
         total_items (match_items env request) = None"
  using match_items_valid [OF assms(1) assms(2) assms(3) assms(4)] assms(5)
  by (simp add: Let_def)

theorem match_items_empty_collection_witness:
  "db example_env = Some (\<lambda>c. if c = ''found_items'' then example_docs else []) \<and>
   read_request example_env (example_request ''found'' ''black wallet'')
     = Inr (''found'', ''black wallet'', Some 2) \<and>
   search_collection_for ''found'' = ''lost_items'' \<and>
   match_items example_env (example_request ''found'' ''black wallet'')
     = NoItemsResponse ''No items found in lost_items collection'' [] \<and>
   status (match_items example_env (example_request ''found'' ''black wallet'')) = 200"
proof -
  have d: "db example_env = Some (\<lambda>c. if c = ''found_items'' then example_docs else [])"
    by (simp add: example_env_def)
  have r: "read_request example_env (example_request ''found'' ''black wallet'')
              = Inr (''found'', ''black wallet'', Some 2)"
    by (simp add: eval_defs)
  have v: "''found'' = ''lost'' \<or> ''found'' = ''found''" by simp
  have t: "''black wallet'' \<noteq> []" by simp
  have e: "(\<lambda>c. if c = ''found_items'' then example_docs else [])
             (search_collection_for ''found'') = []"
    by (simp add: search_collection_for_def)
  from match_items_empty_collection [OF d r v t e] d r show ?thesis
    by (simp add: search_collection_for_def)
qed

text \<open>
  The query of type \<^verbatim>\<open>lost\<close> with text \<^verbatim>\<open>black wallet\<close> on an empty store: the response
  has no \<^verbatim>\<open>total_items\<close>, so not \<^verbatim>\<open>total_items: 0\<close> either.
\<close>

theorem empty_collection_counterexample:
  "match_items (example_env \<lparr> db := Some (\<lambda>c. []) \<rparr>)
     (JsonRequest (Some [''type'' \<mapsto> JString ''lost'', ''text'' \<mapsto> JString ''black wallet'']))
     = NoItemsResponse ''No items found in found_items collection'' [] \<and>
   total_items (match_items (example_env \<lparr> db := Some (\<lambda>c. []) \<rparr>)
     (JsonRequest (Some [''type'' \<mapsto> JString ''lost'', ''text'' \<mapsto> JString ''black wallet''])))
     \<noteq> Some 0"
  by (simp add: eval_defs)

subsection \<open>Case of the type\<close>








subsection \<open>Validation\<close>

text \<open>
  C9, as the code has it. When the store is initialised and the request can be read, a
  \<^verbatim>\<open>query_type\<close> that is neither \<^verbatim>\<open>lost\<close> nor \<^verbatim>\<open>found\<close>, or a text that is empty after
  trimming, gets a response of status 400 with a message that says which of the two
  failed.
\<close>

theorem match_items_validation:
  assumes "db env = Some d"
    and "read_request env request = Inr (query_type, query_text, query_img)"
    and "(query_type \<noteq> ''lost'' \<and> query_type \<noteq> ''found'') \<or> query_text = []"
  shows "status (match_items env request) = 400 \<and>
         match_items env request =
           ErrorResponse 400
             (if query_type \<noteq> ''lost'' \<and> query_type \<noteq> ''found''
              then ''type must be '' @ [CHR 0x22] @ ''lost'' @ [CHR 0x22] @ '' or ''
                     @ [CHR 0x22] @ ''found'' @ [CHR 0x22]
              else ''text description is required'')"
  using assms by (auto simp: match_items_def)

theorem match_items_validation_witness:
  "db example_env = Some (\<lambda>c. if c = ''found_items'' then example_docs else []) \<and>
   read_request example_env (example_request ''maybe'' ''keys'') = Inr (''maybe'', ''keys'', Some 2) \<and>
   read_request example_env (example_request ''found'' ''  '') = Inr (''found'', [], Some 2) \<and>
   read_request example_env (example_request ''found'' [CHR 0xA0, CHR 0x85, CHR 0x09])
     = Inr (''found'', [], Some 2) \<and>
   status (match_items example_env (example_request ''maybe'' ''keys'')) = 400 \<and>
   match_items example_env (example_request ''found'' ''  '')
     = ErrorResponse 400 ''text description is required'' \<and>
   match_items example_env (example_request ''found'' [CHR 0xA0, CHR 0x85, CHR 0x09])
     = ErrorResponse 400 ''text description is required''"
proof -
  have d: "db example_env = Some (\<lambda>c. if c = ''found_items'' then example_docs else [])"
    by (simp add: example_env_def)
  have r1: "read_request example_env (example_request ''maybe'' ''keys'')
              = Inr (''maybe'', ''keys'', Some 2)"
    by (simp add: eval_defs)
  have r2: "read_request example_env (example_request ''found'' ''  '') = Inr (''found'', [], Some 2)"
    by (simp add: eval_defs)
  have r3: "read_request example_env (example_request ''found'' [CHR 0xA0, CHR 0x85, CHR 0x09])
              = Inr (''found'', [], Some 2)"
    by (simp add: eval_defs)
  have h1: "(''maybe'' \<noteq> ''lost'' \<and> ''maybe'' \<noteq> ''found'') \<or> ''keys'' = []" by simp
  have h2: "(''found'' \<noteq> ''lost'' \<and> ''found'' \<noteq> ''found'') \<or> ([] :: string) = []" by simp
  from match_items_validation [OF d r1 h1] match_items_validation [OF d r2 h2]
       match_items_validation [OF d r3 h2] d r1 r2 r3
  show ?thesis by simp
qed

text \<open>
  Without a store the check \<^verbatim>\<open>db is None\<close> comes first: the same invalid request gets
  status 500.
\<close>

theorem validation_counterexample:
  "match_items (example_env \<lparr> db := None \<rparr>) (example_request ''maybe'' ''keys'')
     = ErrorResponse 500 ''Firebase not initialized'' \<and>
   status (match_items (example_env \<lparr> db := None \<rparr>) (example_request ''maybe'' ''keys'')) = 500"
  by (simp add: match_items_def)

subsection \<open>A candidate whose image cannot be loaded\<close>

text \<open>
  C5, as the code has it. The query has text and an image, the embeddings of each model
  have one length, and the image of the candidate at position \<open>k\<close> of the collection
  cannot be fetched or decoded. Then the request is answered with the list of matches,
  not with an error, and \<^verbatim>\<open>total_items\<close> counts the candidate; its entry has no
  \<^verbatim>\<open>image_similarity\<close>, and its whole similarity, \<^verbatim>\<open>overall_score\<close> included, is what
  scoring it without a query image gives. The entry is in \<^verbatim>\<open>matches\<close> whenever the
  collection has at most 20 items; when it is not in \<^verbatim>\<open>matches\<close>, the collection has
  more than 20 items and the 20 entries returned all have a score at least as high.
\<close>

theorem match_items_unreachable_image:
  assumes "db env = Some d"
    and "read_request env request = Inr (query_type, query_text, Some qimg)"
    and "query_type = ''lost'' \<or> query_type = ''found''"
    and "query_text \<noteq> []"
    and "\<forall>s s'. length (text_model_encode env s) = length (text_model_encode env s')"
    and "\<forall>i i' v v'. image_model_encode env i = Inr v \<longrightarrow>
           image_model_encode env i' = Inr v' \<longrightarrow> length v = length v'"
    and "k < length (d (search_collection_for query_type))"
    and "i_image_url (doc_to_item (d (search_collection_for query_type) ! k)) = Some url"
    and "load_image_from_url env url = None"
  shows "\<exists>results.
           score_targets env query_text (Some qimg)
             (map doc_to_item (d (search_collection_for query_type))) = Inr results \<and>
           match_items env request =
             MatchesResponse query_type (search_collection_for query_type)
               (length (d (search_collection_for query_type)))
               (take 20 (sort_by_overall_score results)) \<and>
           m_item_id (results ! k) = doc_id (d (search_collection_for query_type) ! k) \<and>
           image_similarity (m_similarity (results ! k)) = None \<and>
           calculate_similarity env query_text None
             (doc_to_item (d (search_collection_for query_type) ! k))
             = Inr (m_similarity (results ! k)) \<and>
           total_items (match_items env request)
             = Some (length (d (search_collection_for query_type))) \<and>
           (length (d (search_collection_for query_type)) \<le> 20 \<longrightarrow>
              matches (match_items env request) = Some (sort_by_overall_score results) \<and>
              results ! k \<in> set (take 20 (sort_by_overall_score results))) \<and>
           (results ! k \<notin> set (take 20 (sort_by_overall_score results)) \<longrightarrow>
              20 < length (d (search_collection_for query_type)) \<and>
              length (take 20 (sort_by_overall_score results)) = 20 \<and>
              (\<forall>m \<in> set (take 20 (sort_by_overall_score results)).
                 overall_score (m_similarity (results ! k))
                   \<le> overall_score (m_similarity m)))"
proof -
  let ?c = "search_collection_for query_type"
  let ?items = "map doc_to_item (d ?c)"
  from score_targets_total [OF assms(5) assms(6)] obtain results where
    sc: "score_targets env query_text (Some qimg) ?items = Inr results"
    by blast
  note ent = score_targets_entries [OF sc]
  from ent have len: "length results = length (d ?c)" by simp
  have ne: "d ?c \<noteq> []" using assms(7) by auto
  have resp: "match_items env request =
      MatchesResponse query_type ?c (length (d ?c)) (take 20 (sort_by_overall_score results))"
    using match_items_valid [OF assms(1) assms(2) assms(3) assms(4)] sc ne len
    by (simp add: Let_def)
  have k: "k < length ?items" using assms(7) by simp
  have item: "?items ! k = doc_to_item (d ?c ! k)" using assms(7) by simp
  from ent k have "map m_item_id results ! k = map i_id ?items ! k" by simp
  then have id: "m_item_id (results ! k) = doc_id (d ?c ! k)"
    using k len assms(7) by (simp add: doc_to_item_def Let_def)
  from ent k have "calculate_similarity env query_text (Some qimg) (?items ! k)
                     = Inr (m_similarity (results ! k))"
    by blast
  then have with_img: "calculate_similarity env query_text (Some qimg) (doc_to_item (d ?c ! k))
                     = Inr (m_similarity (results ! k))"
    by (simp only: item)
  have text_only: "calculate_similarity env query_text None (doc_to_item (d ?c ! k))
                     = Inr (m_similarity (results ! k))"
    using with_img
      calculate_similarity_unreachable [OF assms(8) assms(9), of query_text "Some qimg"]
    by (simp only:)
  have absent: "image_similarity (m_similarity (results ! k)) = None"
    using calculate_similarity_no_image [OF text_only] by simp
  have total: "total_items (match_items env request) = Some (length (d ?c))"
    using resp by simp
  have mem: "results ! k \<in> set (sort_by_overall_score results)"
    using k len by simp
  have small: "length (d ?c) \<le> 20 \<longrightarrow>
                 matches (match_items env request) = Some (sort_by_overall_score results) \<and>
                 results ! k \<in> set (take 20 (sort_by_overall_score results))"
    using resp len mem by simp
  have cut: "results ! k \<notin> set (take 20 (sort_by_overall_score results)) \<longrightarrow>
               20 < length (d ?c) \<and>
               length (take 20 (sort_by_overall_score results)) = 20 \<and>
               (\<forall>m \<in> set (take 20 (sort_by_overall_score results)).
                  overall_score (m_similarity (results ! k))
                    \<le> overall_score (m_similarity m))"
  proof
    assume out: "results ! k \<notin> set (take 20 (sort_by_overall_score results))"
    have big: "20 < length (d ?c)"
    proof (rule ccontr)
      assume "\<not> 20 < length (d ?c)"
      then have "take 20 (sort_by_overall_score results) = sort_by_overall_score results"
        using len by simp
      with out mem show False by simp
    qed
    have "set (sort_by_overall_score results)
            = set (take 20 (sort_by_overall_score results))
                \<union> set (drop 20 (sort_by_overall_score results))"
      by (metis append_take_drop_id set_append)
    with out mem have dr: "results ! k \<in> set (drop 20 (sort_by_overall_score results))"
      by blast
    have below: "\<forall>m \<in> set (take 20 (sort_by_overall_score results)).
                   overall_score (m_similarity (results ! k))
                     \<le> overall_score (m_similarity m)"
      using ranked_cut_below_kept [OF _ dr] by blast
    from big len below
    show "20 < length (d ?c) \<and>
          length (take 20 (sort_by_overall_score results)) = 20 \<and>
          (\<forall>m \<in> set (take 20 (sort_by_overall_score results)).
             overall_score (m_similarity (results ! k))
               \<le> overall_score (m_similarity m))"
      by simp
  qed
  from sc resp id absent text_only total small cut show ?thesis by blast
qed

theorem match_items_unreachable_image_witness:
  "read_request example_env (example_request ''lost'' ''black wallet'')
     = Inr (''lost'', ''black wallet'', Some 2) \<and>
   i_image_url (doc_to_item (example_docs ! 1)) = Some ''https://img/broken'' \<and>
   load_image_from_url example_env ''https://img/broken'' = None \<and>
   map_option (map (\<lambda>m. (m_item_id m, image_similarity (m_similarity m),
                           overall_score (m_similarity m))))
     (matches (match_items example_env (example_request ''lost'' ''black wallet'')))
     = Some [(''f1'', Some 60, 708 / 10), (''f3'', None, 0), (''f2'', None, - 100)] \<and>
   calculate_similarity example_env ''black wallet'' None (doc_to_item (example_docs ! 1))
     = Inr \<lparr> overall_score = - 100, text_similarity = Some (- 100), image_similarity = None,
             has_text = True, has_image = False \<rparr> \<and>
   total_items (match_items example_env (example_request ''lost'' ''black wallet'')) = Some 3"
proof -
  let ?d = "\<lambda>c. if c = ''found_items'' then example_docs else []"
  have d: "db example_env = Some ?d"
    by (simp add: example_env_def)
  have r: "read_request example_env (example_request ''lost'' ''black wallet'')
             = Inr (''lost'', ''black wallet'', Some 2)"
    by (simp add: eval_defs)
  have v: "''lost'' = ''lost'' \<or> ''lost'' = ''found''" by simp
  have t: "''black wallet'' \<noteq> []" by simp
  have dt: "\<forall>s s'. length (text_model_encode example_env s)
                     = length (text_model_encode example_env s')"
    by (simp add: example_env_def)
  have di: "\<forall>i i' v v'. image_model_encode example_env i = Inr v \<longrightarrow>
              image_model_encode example_env i' = Inr v' \<longrightarrow> length v = length v'"
    by (auto simp: example_env_def split: if_splits)
  have k: "1 < length (?d (search_collection_for ''lost''))"
    by (simp add: search_collection_for_def example_docs_def)
  have u: "i_image_url (doc_to_item (?d (search_collection_for ''lost'') ! 1))
             = Some ''https://img/broken''"
    by (simp add: search_collection_for_def example_docs_def doc_to_item_def)
  have l: "load_image_from_url example_env ''https://img/broken'' = None"
    by (simp add: load_image_from_url_def example_env_def)
  have ev: "map_option (map (\<lambda>m. (m_item_id m, image_similarity (m_similarity m),
                           overall_score (m_similarity m))))
     (matches (match_items example_env (example_request ''lost'' ''black wallet'')))
     = Some [(''f1'', Some 60, 708 / 10), (''f3'', None, 0), (''f2'', None, - 100)]"
    by (simp add: eval_defs)
  have c: "calculate_similarity example_env ''black wallet'' None (doc_to_item (example_docs ! 1))
     = Inr \<lparr> overall_score = - 100, text_similarity = Some (- 100), image_similarity = None,
             has_text = True, has_image = False \<rparr>"
    by (simp add: eval_defs)
  from match_items_unreachable_image [OF d r v t dt di k u l] r l ev c u
  show ?thesis
    by (auto simp: search_collection_for_def example_docs_def)
qed

text \<open>
  On the store of 21 items the umbrella, whose image cannot be fetched, has the lowest
  score and is cut: it is scored and counted, but it is not among the 20 matches.
\<close>

theorem unreachable_image_cut_counterexample:
  "read_request crowded_env (example_request ''lost'' ''black wallet'')
     = Inr (''lost'', ''black wallet'', Some 2) \<and>
   length crowded_docs = 21 \<and>
   doc_id (crowded_docs ! 20) = ''f2'' \<and>
   i_image_url (doc_to_item (crowded_docs ! 20)) = Some ''https://img/broken'' \<and>
   load_image_from_url crowded_env ''https://img/broken'' = None \<and>
   map_option (map m_item_id)
     (matches (match_items crowded_env (example_request ''lost'' ''black wallet'')))
     = Some (replicate 20 ''g'') \<and>
   ''f2'' \<notin> set (replicate 20 ''g'') \<and>
   total_items (match_items crowded_env (example_request ''lost'' ''black wallet'')) = Some 21"
proof -
  have r: "read_request crowded_env (example_request ''lost'' ''black wallet'')
             = Inr (''lost'', ''black wallet'', Some 2)"
    by (simp add: eval_defs crowded_env_def)
  have n: "length crowded_docs = 21"
    by (simp add: crowded_docs_def)
  have last: "crowded_docs ! 20 =
      \<lparr> doc_id = ''f2'',
        doc_fields = [''description'' \<mapsto> ''red umbrella'',
                      ''imageUrl'' \<mapsto> ''https://img/broken''],
        doc_metadata = None \<rparr>"
    by (simp add: crowded_docs_def nth_append)
  have i: "doc_id (crowded_docs ! 20) = ''f2''"
    unfolding last by simp
  have u: "i_image_url (doc_to_item (crowded_docs ! 20)) = Some ''https://img/broken''"
    unfolding last by (simp add: doc_to_item_def)
  have l: "load_image_from_url crowded_env ''https://img/broken'' = None"
    by (simp add: load_image_from_url_def crowded_env_def example_env_def)
  have m: "map_option (map m_item_id)
     (matches (match_items crowded_env (example_request ''lost'' ''black wallet'')))
     = Some (replicate 20 ''g'') \<and>
   total_items (match_items crowded_env (example_request ''lost'' ''black wallet'')) = Some 21"
    by (simp add: eval_defs crowded_env_def crowded_docs_def eval_nat_numeral)
  have f: "''f2'' \<notin> set (replicate 20 ''g'')"
    by simp
  from r n i u l m f show ?thesis by blast
qed

subsection \<open>How often the query is embedded\<close>

lemma strip_idem: "strip (strip s) = strip s"
proof -
  define a where "a = dropWhile is_space s"
  define b where "b = dropWhile is_space (rev a)"
  have s: "strip s = rev b" by (simp add: strip_def a_def b_def)
  have "rev a = takeWhile is_space (rev a) @ b"
    by (simp add: b_def)
  then have a: "a = rev b @ rev (takeWhile is_space (rev a))"
    by (metis rev_append rev_rev_ident)
  have front: "dropWhile is_space (rev b) = rev b"
  proof (cases "b = []")
    case True
    then show ?thesis by simp
  next
    case False
    then have "a \<noteq> []" using a by auto
    then have "\<not> is_space (hd a)"
      unfolding a_def by (rule hd_dropWhile)
    moreover have "hd a = hd (rev b)"
      using a False by (metis hd_append2 rev_is_Nil_conv)
    ultimately show ?thesis
      by (simp add: dropWhile_eq_self_iff)
  qed
  have rear: "dropWhile is_space b = b"
    by (simp add: b_def)
  show ?thesis
    unfolding s by (simp add: strip_def front rear)
qed

lemma read_request_text_stripped:
  assumes "read_request env request = Inr (query_type, query_text, query_img)"
  shows "strip query_text = query_text"
  using assms
  by (auto simp: read_request_def strip_idem
           split: request.splits option.splits sum.splits)

lemma count_text_section_calls:
  "count_list (text_section_calls query_text target) Query_text_emb
     = (if query_text \<noteq> [] \<and> strip query_text \<noteq> [] \<and> i_description target \<noteq> []
        then 1 else 0)"
  "count_list (text_section_calls query_text target) Query_img_emb = 0"
  by (simp_all add: text_section_calls_def get_text_embedding_calls_def)

lemma count_image_section_calls:
  "count_list (image_section_calls env query_img target) Query_text_emb = 0"
  "count_list (image_section_calls env query_img target) Query_img_emb
     = (if query_img \<noteq> None \<and> i_image_url target \<noteq> None \<and> i_image_url target \<noteq> Some []
        then 1 else 0)"
  by (auto simp: image_section_calls_def split: option.splits)

lemma count_calculate_similarity_calls:
  assumes "calculate_similarity env query_text query_img target = Inr r"
  shows "count_list (calculate_similarity_calls env query_text query_img target) Query_text_emb
           = (if query_text \<noteq> [] \<and> strip query_text \<noteq> [] \<and> i_description target \<noteq> []
              then 1 else 0) \<and>
         count_list (calculate_similarity_calls env query_text query_img target) Query_img_emb
           = (if query_img \<noteq> None \<and> i_image_url target \<noteq> None
                 \<and> i_image_url target \<noteq> Some []
              then 1 else 0)"
proof -
  from calculate_similarity_Inr [OF assms] obtain p where
    "text_section env query_text target = Inr p" by blast
  then have "calculate_similarity_calls env query_text query_img target
               = text_section_calls query_text target
                   @ image_section_calls env query_img target"
    by (simp add: calculate_similarity_calls_def)
  then show ?thesis
    by (simp only: count_list_append count_text_section_calls count_image_section_calls) simp
qed

lemma count_score_targets_calls:
  assumes "score_targets env query_text query_img targets = Inr results"
    and "query_text \<noteq> []" and "strip query_text \<noteq> []"
  shows "count_list (score_targets_calls env query_text query_img targets) Query_text_emb
           = length (filter (\<lambda>t. i_description t \<noteq> []) targets) \<and>
         count_list (score_targets_calls env query_text query_img targets) Query_img_emb
           = (if query_img = None then 0
              else length (filter (\<lambda>t. i_image_url t \<noteq> None \<and> i_image_url t \<noteq> Some [])
                             targets))"
  using assms(1)
proof (induction targets arbitrary: results)
  case Nil
  show ?case by simp
next
  case (Cons t ts)
  from Cons.prems obtain sim rest where
    sim: "calculate_similarity env query_text query_img t = Inr sim" and
    rest: "score_targets env query_text query_img ts = Inr rest"
    by (auto split: sum.splits)
  from count_calculate_similarity_calls [OF sim] Cons.IH [OF rest] sim assms(2,3)
  show ?case by (simp only: score_targets_calls.simps count_list_append) auto
qed

lemma count_read_request_calls:
  "count_list (read_request_calls request) Query_text_emb = 0"
  "count_list (read_request_calls request) Query_img_emb = 0"
  by (auto simp: read_request_calls_def
           split: request.splits option.splits sum.splits jvalue.splits)

text \<open>
  C6, as the code has it. \<^verbatim>\<open>calculate_similarity\<close> receives the query's text and image
  and embeds them itself, so in a request whose scoring loop runs to its end the text
  model is called on the query's text once for every candidate with a description, and
  the image model on the query's image once for every candidate with an image URL (never
  when the query has no image). Each of these calls has the same argument, the query's.
\<close>

theorem match_items_query_embedding_calls:
  assumes "db env = Some d"
    and "read_request env request = Inr (query_type, query_text, query_img)"
    and "query_type = ''lost'' \<or> query_type = ''found''"
    and "query_text \<noteq> []"
    and "score_targets env query_text query_img
           (map doc_to_item (d (search_collection_for query_type))) = Inr results"
  shows "count_list (match_items_calls env request) Query_text_emb
           = length (filter (\<lambda>t. i_description t \<noteq> [])
                       (map doc_to_item (d (search_collection_for query_type)))) \<and>
         count_list (match_items_calls env request) Query_img_emb
           = (if query_img = None then 0
              else length (filter (\<lambda>t. i_image_url t \<noteq> None \<and> i_image_url t \<noteq> Some [])
                             (map doc_to_item (d (search_collection_for query_type)))))"
proof -
  let ?items = "map doc_to_item (d (search_collection_for query_type))"
  have st: "strip query_text \<noteq> []"
    using read_request_text_stripped [OF assms(2)] assms(4) by simp
  have calls: "match_items_calls env request
                 = read_request_calls request
                     @ score_targets_calls env query_text query_img ?items"
    using assms(1-4) by (auto simp: match_items_calls_def fetch_items_from_firestore_def)
  show ?thesis
    using count_score_targets_calls [OF assms(5) assms(4) st]
    by (simp only: calls count_list_append count_read_request_calls) simp
qed

theorem match_items_query_embedding_calls_witness:
  "read_request example_env (example_request ''lost'' ''black wallet'')
     = Inr (''lost'', ''black wallet'', Some 2) \<and>
   map i_id (filter (\<lambda>t. i_description t \<noteq> []) (map doc_to_item example_docs))
     = [''f1'', ''f2''] \<and>
   count_list (match_items_calls example_env (example_request ''lost'' ''black wallet''))
     Query_text_emb = length (filter (\<lambda>t. i_description t \<noteq> []) (map doc_to_item example_docs)) \<and>
   count_list (match_items_calls example_env (example_request ''lost'' ''black wallet''))
     Query_img_emb
     = length (filter (\<lambda>t. i_image_url t \<noteq> None \<and> i_image_url t \<noteq> Some [])
                 (map doc_to_item example_docs))"
proof -
  let ?d = "\<lambda>c. if c = ''found_items'' then example_docs else []"
  have d: "db example_env = Some ?d"
    by (simp add: example_env_def)
  have r: "read_request example_env (example_request ''lost'' ''black wallet'')
             = Inr (''lost'', ''black wallet'', Some 2)"
    by (simp add: eval_defs)
  have v: "''lost'' = ''lost'' \<or> ''lost'' = ''found''" by simp
  have t: "''black wallet'' \<noteq> []" by simp
  have "\<exists>results. score_targets example_env ''black wallet'' (Some 2)
           (map doc_to_item (?d (search_collection_for ''lost''))) = Inr results"
    by (simp add: eval_defs)
  then obtain results where
    sc: "score_targets example_env ''black wallet'' (Some 2)
           (map doc_to_item (?d (search_collection_for ''lost''))) = Inr results"
    by blast
  have f: "map i_id (filter (\<lambda>t. i_description t \<noteq> []) (map doc_to_item example_docs))
             = [''f1'', ''f2'']"
    by (simp add: example_docs_def doc_to_item_def)
  from match_items_query_embedding_calls [OF d r v t sc] r f
  show ?thesis by (simp add: search_collection_for_def)
qed

text \<open>
  With two candidates that have a description and an image URL, each embedding of the
  query is computed twice in one request.
\<close>

theorem query_embedding_once_counterexample:
  "count_list (match_items_calls example_env (example_request ''lost'' ''black wallet''))
     Query_text_emb = 2 \<and>
   count_list (match_items_calls example_env (example_request ''lost'' ''black wallet''))
     Query_img_emb = 2"
  by (simp add: eval_defs match_items_calls_def read_request_calls_def
        calculate_similarity_calls_def text_section_calls_def image_section_calls_def
        get_text_embedding_calls_def)

end
